theory Spec2Isabelle
  imports Complex_Main "HOL-Library.Log_Nat"
begin

section \<open>Python values shared by the scripts\<close>

text \<open>
  The scripts are Python: integers are unbounded (\<open>int\<close>), floats are double-precision
  numbers, and every exception the code can raise is a value of \<open>py_error\<close>.
\<close>

datatype py_error = ZeroDivisionError | TypeError | AttributeError | ValueError

text \<open>Python's \<open>round(x)\<close> with one argument: the nearest integer, ties to the even one.\<close>

definition py_round :: "real \<Rightarrow> int" where
  "py_round x =
     (let n = \<lfloor>x\<rfloor>; d = x - of_int n
      in if d < 1 / 2 then n else if 1 / 2 < d then n + 1 else if even n then n else n + 1)"

subsection \<open>Doubles\<close>

text \<open>
  A double is a real with a significand of 53 bits. \<open>exponent x\<close> is the \<open>e\<close> with
  \<open>2^e \<le> x < 2^(e + 1)\<close> for a positive \<open>x\<close>, \<open>ulp x\<close> the distance \<open>2^(e - 52)\<close> between
  neighbouring doubles there, and \<open>to_double x\<close> the double nearest to \<open>x\<close>, ties to the even
  significand: it is what an arithmetic operation returns for the exact result \<open>x\<close>, what
  the conversion of an integer returns, and what reading a decimal literal returns. The
  range of the exponent is not limited (no overflow, no subnormal numbers).
\<close>

definition exponent :: "real \<Rightarrow> int" where
  "exponent x = (if 1 \<le> x then bitlen \<lfloor>x\<rfloor> - 1 else - bitlen (\<lceil>1 / x\<rceil> - 1))"

definition ulp :: "real \<Rightarrow> real" where
  "ulp x = (if 52 \<le> exponent x then 2 ^ nat (exponent x - 52)
            else 1 / 2 ^ nat (52 - exponent x))"

definition to_double :: "real \<Rightarrow> real" where
  "to_double x =
     (if x = 0 then 0
      else if x < 0 then - (of_int (py_round (- x / ulp (- x))) * ulp (- x))
      else of_int (py_round (x / ulp x)) * ulp x)"

text \<open>
  The losses are floats that may be NaN: a loss is a number or \<open>NaN\<close>, arithmetic with
  \<open>NaN\<close> yields \<open>NaN\<close>, and every comparison with \<open>NaN\<close> is false. The sums and quotients
  of losses are taken exactly; infinite values, which compare like numbers, are left out.
\<close>

datatype pyfloat = Num real | NaN

fun fadd :: "pyfloat \<Rightarrow> pyfloat \<Rightarrow> pyfloat" where
  "fadd (Num a) (Num b) = Num (a + b)"
| "fadd a b = NaN"

fun fdiv :: "pyfloat \<Rightarrow> nat \<Rightarrow> pyfloat" where
  "fdiv (Num a) n = Num (a / real n)"
| "fdiv NaN n = NaN"

fun fscale :: "nat \<Rightarrow> pyfloat \<Rightarrow> pyfloat" where
  "fscale k (Num a) = Num (real k * a)"
| "fscale k NaN = NaN"

fun fless :: "pyfloat \<Rightarrow> pyfloat \<Rightarrow> bool" where
  "fless (Num a) (Num b) = (a < b)"
| "fless a b = False"

fun fle :: "pyfloat \<Rightarrow> pyfloat \<Rightarrow> bool" where
  "fle (Num a) (Num b) = (a \<le> b)"
| "fle a b = False"

definition fsum :: "pyfloat list \<Rightarrow> pyfloat" where
  "fsum xs = foldr fadd xs (Num 0)"

subsection \<open>Slices and strings\<close>

text \<open>A slice bound of a list of length \<open>n\<close>: negative bounds count from the end, and
  both ends are clamped to the list.\<close>

definition slice_bound :: "nat \<Rightarrow> int \<Rightarrow> nat" where
  "slice_bound n i = (if i < 0 then nat (max 0 (int n + i)) else min n (nat i))"

definition py_slice :: "'a list \<Rightarrow> int \<Rightarrow> int \<Rightarrow> 'a list" where
  "py_slice xs i j =
     (let lo = slice_bound (length xs) i; hi = slice_bound (length xs) j
      in take (hi - lo) (drop lo xs))"

text \<open>\<open>str.lower()\<close> on ASCII text.\<close>

definition lower_char :: "char \<Rightarrow> char" where
  "lower_char c =
     (let n = (of_char c :: nat) in if 65 \<le> n \<and> n \<le> 90 then char_of (n + 32) else c)"

definition lower :: "string \<Rightarrow> string" where
  "lower s = map lower_char s"


section \<open>Split engine: \<open>split_dataset\<close> (utils.py) and \<open>_get_dataset_split\<close> (train_test.py)\<close>

text \<open>
  A dataset is the list of its items. \<open>torch.utils.data.random_split\<close> draws a permutation
  of the indices from its generator, checks that the requested lengths add up to the
  length of the dataset, and cuts the permutation into consecutive slices
  \<open>indices[offset - length : offset]\<close>. The permutation drawn is the argument \<open>perm\<close>:
  with a seed it is a function of the seed, without one it differs from call to call.
\<close>

fun accumulate :: "int \<Rightarrow> int list \<Rightarrow> int list" where
  "accumulate acc [] = []"
| "accumulate acc (l # ls) = (acc + l) # accumulate (acc + l) ls"

definition subset_at :: "'a list \<Rightarrow> nat list \<Rightarrow> 'a list" where
  "subset_at dataset indices = map (\<lambda>i. dataset ! i) indices"

definition random_split :: "'a list \<Rightarrow> int list \<Rightarrow> nat list \<Rightarrow> py_error + 'a list list" where
  "random_split dataset lengths perm =
     (if sum_list lengths \<noteq> int (length dataset) then Inl ValueError
      else Inr (map (\<lambda>(offset, len). subset_at dataset (py_slice perm (offset - len) offset))
                    (zip (accumulate 0 lengths) lengths)))"

text \<open>
  \<open>len(data) * split_size\<close> is a product of doubles: the length is converted to a double,
  the fraction is the double that its literal denotes, and the product is rounded to a
  double before \<open>round\<close> sees it.
\<close>

definition float_product :: "nat \<Rightarrow> real \<Rightarrow> real" where
  "float_product n split_size = to_double (to_double (real n) * to_double split_size)"

definition split_lengths :: "nat \<Rightarrow> real \<Rightarrow> int list" where
  "split_lengths n split_size =
     [py_round (float_product n split_size), int n - py_round (float_product n split_size)]"

definition split_dataset :: "'a list \<Rightarrow> real \<Rightarrow> nat list \<Rightarrow> py_error + 'a list \<times> 'a list" where
  "split_dataset dataset split_size perm =
     (case random_split dataset (split_lengths (length dataset) split_size) perm of
        Inl e \<Rightarrow> Inl e
      | Inr [train_dataset, test_dataset] \<Rightarrow> Inr (train_dataset, test_dataset)
      | Inr _ \<Rightarrow> Inl ValueError)"

text \<open>\<open>_get_dataset_split\<close> makes the same call and then selects by \<open>part\<close>; a \<open>part\<close>
  that is none of the three names falls off the end of the function and yields \<open>None\<close>.\<close>

datatype 'a split_result = Both "'a list" "'a list" | Single "'a list" | NoResult

definition get_dataset_split ::
  "'a list \<Rightarrow> string option \<Rightarrow> real \<Rightarrow> nat list \<Rightarrow> py_error + 'a split_result" where
  "get_dataset_split data part split_size perm =
     (case split_dataset data split_size perm of
        Inl e \<Rightarrow> Inl e
      | Inr (train_dataset, test_dataset) \<Rightarrow>
          if part = None \<or> part = Some ''both'' then Inr (Both train_dataset test_dataset)
          else if part = Some ''test'' then Inr (Single test_dataset)
          else if part = Some ''train'' then Inr (Single train_dataset)
          else Inr NoResult)"


section \<open>Staged optimizer scheduler: \<open>Wav2VecCLSPaperFinetuning\<close> (wav2vec_models.py)\<close>

text \<open>
  The parameters of the model, by the sub-module that owns them. The constructor freezes
  the feature extractor; \<open>configure_optimizers\<close> builds two Adam optimizers, each with one
  parameter group whose rate and default rate are \<open>self.lr\<close>: the first over the linear
  layer, the second over the chain of feature projection, encoder and linear layer.
\<close>

datatype parameter = FeatureExtractorP | FeatureProjectionP | EncoderP | LinearLayerP

record param_group =
  pg_params :: "parameter list"
  pg_lr :: real

record optimizer =
  defaults_lr :: real
  param_groups :: "param_group list"

definition Adam :: "parameter list \<Rightarrow> real \<Rightarrow> optimizer" where
  "Adam ps rate = \<lparr>defaults_lr = rate, param_groups = [\<lparr>pg_params = ps, pg_lr = rate\<rparr>]\<rparr>"

record paper_finetuning =
  self_lr :: real
  self_num_epochs :: int

definition configure_optimizers :: "paper_finetuning \<Rightarrow> optimizer \<times> optimizer" where
  "configure_optimizers self =
     (Adam [LinearLayerP] (self_lr self),
      Adam ([FeatureProjectionP] @ [EncoderP] @ [LinearLayerP]) (self_lr self))"

text \<open>
  \<open>optimizer.step\<close> updates, in place, every parameter of every group of the optimizer
  with the group's current rate. What an update does to the numbers is Adam's business;
  the model records, for each parameter, the rates of the updates it has received, in
  order.
\<close>

type_synonym update_log = "parameter \<Rightarrow> real list"

fun step_params :: "real \<Rightarrow> parameter list \<Rightarrow> update_log \<Rightarrow> update_log" where
  "step_params rate [] h = h"
| "step_params rate (p # ps) h = step_params rate ps (h(p := h p @ [rate]))"

fun step :: "param_group list \<Rightarrow> update_log \<Rightarrow> update_log" where
  "step [] h = h"
| "step (pg # pgs) h = step pgs (step_params (pg_lr pg) (pg_params pg) h)"

definition set_lr :: "real \<Rightarrow> optimizer \<Rightarrow> optimizer" where
  "set_lr rate opt = opt\<lparr>param_groups := map (\<lambda>pg. pg\<lparr>pg_lr := rate\<rparr>) (param_groups opt)\<rparr>"

text \<open>
  \<open>optimizer_step\<close>, branch by branch. The test on \<open>epoch / self.num_epochs\<close> is evaluated
  first and divides by the number of epochs; the two \<open>float(...) / float(...)\<close> quotients
  divide by the width of the warm-up window and of the decay window. The comparison with
  the literal \<open>0.3\<close> is taken on the exact quotient, which is what the double-precision
  comparison computes for any number of epochs below \<open>2^50\<close>.
\<close>

definition optimizer_step ::
  "paper_finetuning \<Rightarrow> int \<Rightarrow> optimizer \<Rightarrow> nat \<Rightarrow> update_log
     \<Rightarrow> py_error + optimizer \<times> update_log" where
  "optimizer_step self epoch opt optimizer_idx h =
     (if self_num_epochs self = 0 then Inl ZeroDivisionError
      else if (3 / 10 \<ge> real_of_int epoch / real_of_int (self_num_epochs self) \<and> optimizer_idx = 0)
            \<or> (3 / 10 < real_of_int epoch / real_of_int (self_num_epochs self) \<and> optimizer_idx = 1)
      then
        (if epoch < self_num_epochs self div 10 then
           (if self_num_epochs self div 10 = 0 then Inl ZeroDivisionError
            else
              let lr_scale = min 1 (real_of_int (epoch + 1)
                                      / real_of_int (self_num_epochs self div 10));
                  opt' = set_lr (lr_scale * defaults_lr opt) opt
              in Inr (opt', step (param_groups opt') h))
         else if epoch \<ge> self_num_epochs self div 2 then
           (if self_num_epochs self - self_num_epochs self div 2 = 0 then Inl ZeroDivisionError
            else
              let lr_scale = min 1 (1 - real_of_int (epoch - self_num_epochs self div 2)
                                       / real_of_int (self_num_epochs self
                                                        - self_num_epochs self div 2));
                  opt' = set_lr (lr_scale * defaults_lr opt) opt
              in Inr (opt', step (param_groups opt') h))
         else Inr (opt, step (param_groups opt) h))
      else Inr (opt, h))"

text \<open>
  The caller is the Lightning training loop: epochs in order, in each epoch the batches in
  order, and for each batch one call of \<open>optimizer_step\<close> per optimizer, with the optimizer's
  index in the pair that \<open>configure_optimizers\<close> returned.
\<close>

record trainer =
  optimizer0 :: optimizer
  optimizer1 :: optimizer
  updates :: update_log

definition init_trainer :: "paper_finetuning \<Rightarrow> trainer" where
  "init_trainer self =
     (case configure_optimizers self of
        (opt0, opt1) \<Rightarrow> \<lparr>optimizer0 = opt0, optimizer1 = opt1, updates = (\<lambda>p. [])\<rparr>)"

definition training_batch :: "paper_finetuning \<Rightarrow> int \<Rightarrow> trainer \<Rightarrow> py_error + trainer" where
  "training_batch self epoch t =
     (case optimizer_step self epoch (optimizer0 t) 0 (updates t) of
        Inl e \<Rightarrow> Inl e
      | Inr (opt0, h0) \<Rightarrow>
          (case optimizer_step self epoch (optimizer1 t) 1 h0 of
             Inl e \<Rightarrow> Inl e
           | Inr (opt1, h1) \<Rightarrow> Inr \<lparr>optimizer0 = opt0, optimizer1 = opt1, updates = h1\<rparr>))"

fun training_epoch :: "paper_finetuning \<Rightarrow> int \<Rightarrow> nat \<Rightarrow> trainer \<Rightarrow> py_error + trainer" where
  "training_epoch self epoch 0 t = Inr t"
| "training_epoch self epoch (Suc n) t =
     (case training_batch self epoch t of
        Inl e \<Rightarrow> Inl e
      | Inr t' \<Rightarrow> training_epoch self epoch n t')"

fun fit_epochs :: "paper_finetuning \<Rightarrow> nat \<Rightarrow> int list \<Rightarrow> trainer \<Rightarrow> py_error + trainer" where
  "fit_epochs self num_batches [] t = Inr t"
| "fit_epochs self num_batches (epoch # epochs) t =
     (case training_epoch self epoch num_batches t of
        Inl e \<Rightarrow> Inl e
      | Inr t' \<Rightarrow> fit_epochs self num_batches epochs t')"

text \<open>
  The schedule in the spec's words, for \<open>E\<close> epochs in all and base rate \<open>base\<close>: the warm-up
  window is the first \<open>E div 10\<close> epochs, where epoch \<open>e\<close> runs at the fraction
  \<open>(e + 1) / (E div 10)\<close> of the base rate; the decay window starts at epoch \<open>E div 2\<close> and
  falls by \<open>base / (E - E div 2)\<close> per epoch, a line that reaches 0 at epoch \<open>E\<close>; in
  between the rate is the base rate. The active group is group 0 while \<open>e / E \<le> 0.3\<close> and
  group 1 afterwards.
\<close>

definition schedule :: "int \<Rightarrow> int \<Rightarrow> real \<Rightarrow> real" where
  "schedule E e base =
     (if e < E div 10 then real_of_int (e + 1) / real_of_int (E div 10) * base
      else if e < E div 2 then base
      else (1 - real_of_int (e - E div 2) / real_of_int (E - E div 2)) * base)"

definition active_idx :: "int \<Rightarrow> int \<Rightarrow> nat" where
  "active_idx E e = (if 10 * e \<le> 3 * E then 0 else 1)"

definition nth_optimizer :: "trainer \<Rightarrow> nat \<Rightarrow> optimizer" where
  "nth_optimizer t i = (if i = 0 then optimizer0 t else optimizer1 t)"

definition group_lrs :: "optimizer \<Rightarrow> real list" where
  "group_lrs opt = map pg_lr (param_groups opt)"

definition group_params :: "optimizer \<Rightarrow> parameter list" where
  "group_params opt = concat (map pg_params (param_groups opt))"

text \<open>
  Vocabulary of the proofs about the schedule: an optimizer with a single parameter
  group, the trainer built from two of them, the rate a step leaves in the stepping
  optimizer, and the invariants that the rates of the two optimizers satisfy between
  epochs.
\<close>

definition opt_of :: "parameter list \<Rightarrow> real \<Rightarrow> real \<Rightarrow> optimizer" where
  "opt_of ps rate base = \<lparr>defaults_lr = base, param_groups = [\<lparr>pg_params = ps, pg_lr = rate\<rparr>]\<rparr>"

definition next_rate :: "int \<Rightarrow> int \<Rightarrow> real \<Rightarrow> real \<Rightarrow> real" where
  "next_rate E e base r = (if E div 10 \<le> e \<and> e < E div 2 then r else schedule E e base)"

definition trainer_of :: "real \<Rightarrow> real \<Rightarrow> update_log \<Rightarrow> real \<Rightarrow> trainer" where
  "trainer_of r0 r1 h b =
     \<lparr>optimizer0 = opt_of [LinearLayerP] r0 b,
      optimizer1 = opt_of [FeatureProjectionP, EncoderP, LinearLayerP] r1 b,
      updates = h\<rparr>"

definition rate_ok :: "int \<Rightarrow> int \<Rightarrow> real \<Rightarrow> real \<Rightarrow> real \<Rightarrow> bool" where
  "rate_ok E e b r0 r1 =
     (E div 10 \<le> e \<and> e < E div 2 \<longrightarrow> (if 10 * e \<le> 3 * E then r0 else r1) = b)"

definition epoch_result :: "int \<Rightarrow> int \<Rightarrow> nat \<Rightarrow> real \<Rightarrow> real \<Rightarrow> update_log \<Rightarrow> real \<Rightarrow> trainer" where
  "epoch_result E e nb r0 r1 h b =
     (if nb = 0 then trainer_of r0 r1 h b
      else if 10 * e \<le> 3 * E
      then trainer_of (schedule E e b) r1 ((step_params (schedule E e b) [LinearLayerP] ^^ nb) h) b
      else trainer_of r0 (schedule E e b)
             ((step_params (schedule E e b) [FeatureProjectionP, EncoderP, LinearLayerP] ^^ nb) h) b)"

definition rate_inv :: "int \<Rightarrow> int \<Rightarrow> real \<Rightarrow> real \<Rightarrow> real \<Rightarrow> bool" where
  "rate_inv E k b r0 r1 = ((E div 10 \<le> k \<longrightarrow> r0 = b) \<and> (k \<le> E div 2 \<longrightarrow> r1 = b))"


section \<open>Training and evaluation loops: \<open>train\<close> and \<open>test\<close> (train_test.py)\<close>

subsection \<open>The collaborators\<close>

text \<open>
  A tensor is the list of its numbers and lives at an address of the heap; the heap is the
  list of all tensors, indexed by address. A model owns its parameters by name and
  address. \<open>model.state_dict()\<close> builds a new dictionary from the names to the very tensors
  of the model (they share their storage), so in the model a state dictionary maps names
  to addresses; \<open>torch.save\<close> writes the numbers found at those addresses when it is
  called.
\<close>

type_synonym tensor = "real list"
type_synonym addr = nat
type_synonym state_dict = "(string \<times> addr) list"
type_synonym 'x sample = "'x \<times> nat"

datatype model_kind = SpectrogramCNN | EfficientNet "string option"

record model =
  kind :: model_kind
  named_parameters :: state_dict

definition state_dict :: "model \<Rightarrow> state_dict" where
  "state_dict m = named_parameters m"

definition tensors :: "tensor list \<Rightarrow> state_dict \<Rightarrow> (string \<times> tensor) list" where
  "tensors hp sd = map (\<lambda>(name, a). (name, hp ! a)) sd"

fun write_tensors :: "tensor list \<Rightarrow> addr list \<Rightarrow> tensor list \<Rightarrow> tensor list" where
  "write_tensors hp (a # as) (v # vs) = write_tensors (hp[a := v]) as vs"
| "write_tensors hp _ _ = hp"

text \<open>
  What the scripts take from outside, as one record: the items that the dataset class
  reads from a directory, the initial parameters of a freshly constructed model, the
  cross-entropy of the model's outputs on a batch (\<open>criterion(model(inputs), labels)\<close>),
  the number of correct predictions on a batch, the optimizer's initial state and its
  step (from its state, the current parameters and the batch, whose gradients the
  backward pass computes, to its new state and the new values of the parameters, which
  are written in place), and the permutations that the random generator draws: one for
  the seeded split, one for the unseeded split of each epoch.
\<close>

record ('x, 'o) torch =
  load_dataset :: "string \<Rightarrow> 'x sample list"
  new_parameters :: "model_kind \<Rightarrow> nat \<Rightarrow> (string \<times> tensor) list"
  criterion :: "(string \<times> tensor) list \<Rightarrow> 'x sample list \<Rightarrow> pyfloat"
  num_correct :: "(string \<times> tensor) list \<Rightarrow> 'x sample list \<Rightarrow> nat"
  adam_init :: 'o
  adam_step :: "'o \<Rightarrow> (string \<times> tensor) list \<Rightarrow> 'x sample list \<Rightarrow> 'o \<times> tensor list"
  seeded_perm :: "nat list"
  epoch_perm :: "nat \<Rightarrow> nat list"

text \<open>The keys of the configuration file that steer the control flow of \<open>train\<close>.\<close>

record config =
  simulation_name :: string
  num_epoches :: nat
  model_name :: string
  model_arch :: "string option"
  dataset_name :: string
  train_test_split_size :: real
  training_batches :: int
  testing_batches :: int

subsection \<open>\<open>_get_model\<close>, \<open>_get_dataset\<close> and the data loader\<close>

text \<open>Both selectors are \<open>if\<close>/\<open>elif\<close> chains without an \<open>else\<close>: an unknown name yields
  \<open>None\<close>.\<close>

definition get_model :: "string \<Rightarrow> string option \<Rightarrow> model_kind option" where
  "get_model name arch =
     (if lower name = ''cnn'' then Some SpectrogramCNN
      else if lower name = ''effnet'' then Some (EfficientNet arch)
      else None)"

definition get_dataset :: "('x, 'o) torch \<Rightarrow> string \<Rightarrow> 'x sample list option" where
  "get_dataset T name =
     (if lower name = ''demos'' then Some (load_dataset T ''DEMoS_dataset'')
      else if lower name = ''demos_short_test''
      then Some (load_dataset T ''DEMoS_dataset_short_test'')
      else None)"

definition get_classes :: "'x sample list \<Rightarrow> nat list" where
  "get_classes dataset = remdups (map snd dataset)"

definition construct :: "('x, 'o) torch \<Rightarrow> model_kind \<Rightarrow> nat \<Rightarrow> model \<times> tensor list" where
  "construct T k num_classes =
     (let ps = new_parameters T k num_classes
      in (\<lparr>kind = k, named_parameters = zip (map fst ps) [0..<length ps]\<rparr>, map snd ps))"

text \<open>A \<open>DataLoader\<close> without shuffling cuts the dataset into consecutive batches of
  \<open>batch_size\<close> items, the last one shorter when the length is no multiple; its \<open>len\<close> is
  the number of batches.\<close>

function chunks :: "nat \<Rightarrow> 'a list \<Rightarrow> 'a list list" where
  "chunks n xs = (if n = 0 \<or> xs = [] then [] else take n xs # chunks n (drop n xs))"
  by pat_completeness auto
termination
  by (relation "measure (\<lambda>(n, xs). length xs)") auto

declare chunks.simps [simp del]

definition DataLoader :: "'a list \<Rightarrow> int \<Rightarrow> py_error + 'a list list" where
  "DataLoader dataset batch_size =
     (if batch_size \<le> 0 then Inl ValueError else Inr (chunks (nat batch_size) dataset))"

subsection \<open>One epoch\<close>

text \<open>
  The loop over the training batches, with \<open>n = len(train_loader)\<close> and the index \<open>i\<close> of
  \<open>enumerate\<close>. Each pass computes the loss, lets the optimizer write the new parameters,
  evaluates \<open>i % (len(train_loader) // 10)\<close> for the progress report, which divides by
  zero when the loader has fewer than ten batches, and adds \<open>loss / len(train_loader)\<close> to
  the running loss. What the report prints is not part of the model.
\<close>

fun train_batches ::
  "('x, 'o) torch \<Rightarrow> model \<Rightarrow> nat \<Rightarrow> nat \<Rightarrow> 'x sample list list
     \<Rightarrow> tensor list \<times> 'o \<Rightarrow> pyfloat \<Rightarrow> py_error + (tensor list \<times> 'o) \<times> pyfloat" where
  "train_batches T m n i [] s train_loss = Inr (s, train_loss)"
| "train_batches T m n i (batch # rest) (hp, os) train_loss =
     (let params = tensors hp (named_parameters m);
          loss = criterion T params batch;
          (os', new) = adam_step T os params batch;
          hp' = write_tensors hp (map snd (named_parameters m)) new
      in if n div 10 = 0 then Inl ZeroDivisionError
         else train_batches T m n (i + 1) rest (hp', os') (fadd train_loss (fdiv loss n)))"

text \<open>The validation loop of \<open>train\<close>: the triple is \<open>(correct, total, val_loss)\<close>.\<close>

fun validate ::
  "('x, 'o) torch \<Rightarrow> (string \<times> tensor) list \<Rightarrow> nat \<Rightarrow> 'x sample list list
     \<Rightarrow> nat \<times> nat \<times> pyfloat \<Rightarrow> nat \<times> nat \<times> pyfloat" where
  "validate T params n [] acc = acc"
| "validate T params n (batch # rest) (correct, n_total, val_loss) =
     validate T params n rest
       (correct + num_correct T params batch, n_total + length batch,
        fadd val_loss (fdiv (criterion T params batch) n))"

text \<open>The loop of \<open>test\<close> over the test batches: the triple is \<open>(correct, total, loss)\<close>.\<close>

fun test_batches ::
  "('x, 'o) torch \<Rightarrow> (string \<times> tensor) list \<Rightarrow> nat \<Rightarrow> 'x sample list list
     \<Rightarrow> nat \<times> nat \<times> pyfloat \<Rightarrow> nat \<times> nat \<times> pyfloat" where
  "test_batches T params n [] acc = acc"
| "test_batches T params n (batch # rest) (correct, n_total, loss) =
     test_batches T params n rest
       (correct + num_correct T params batch, n_total + length batch,
        fadd loss (fdiv (criterion T params batch) n))"

text \<open>The best checkpoint is a dictionary with four keys; \<open>State_Dict\<close> holds what
  \<open>model.state_dict()\<close> returned.\<close>

record checkpoint =
  State_Dict :: state_dict
  Epoch :: nat
  Loss :: pyfloat
  Accuracy :: real

definition save_decision ::
  "checkpoint option \<Rightarrow> state_dict \<Rightarrow> nat \<Rightarrow> pyfloat \<Rightarrow> real \<Rightarrow> checkpoint option" where
  "save_decision best sd epoch val_loss accuracy =
     (if best = None \<or> fless val_loss (Loss (the best))
      then Some \<lparr>State_Dict = sd, Epoch = epoch, Loss = val_loss, Accuracy = accuracy\<rparr>
      else best)"

text \<open>
  The state that the epochs pass on: the heap with the parameters, the optimizer's state,
  the best checkpoint, and the scalars written to the log so far, one entry
  \<open>(epoch, train loss, validation loss, validation accuracy)\<close> per epoch. The accuracy is
  \<open>correct / total\<close>, which divides by zero when the validation split is empty.
\<close>

record 'o run_state =
  heap :: "tensor list"
  optim :: 'o
  best_model :: "checkpoint option"
  scalars :: "(nat \<times> pyfloat \<times> pyfloat \<times> real) list"

definition run_epoch ::
  "('x, 'o) torch \<Rightarrow> config \<Rightarrow> model \<Rightarrow> 'x sample list \<Rightarrow> nat \<Rightarrow> 'o run_state
     \<Rightarrow> py_error + 'o run_state" where
  "run_epoch T conf m train_dataset epoch s =
     (case get_dataset_split train_dataset (Some ''both'') (8 / 10) (epoch_perm T epoch) of
        Inl e \<Rightarrow> Inl e
      | Inr (Both train_split val_split) \<Rightarrow>
          (case DataLoader train_split (training_batches conf) of
             Inl e \<Rightarrow> Inl e
           | Inr train_loader \<Rightarrow>
               (case DataLoader val_split (testing_batches conf) of
                  Inl e \<Rightarrow> Inl e
                | Inr val_loader \<Rightarrow>
                    (case train_batches T m (length train_loader) 0 train_loader
                            (heap s, optim s) (Num 0) of
                       Inl e \<Rightarrow> Inl e
                     | Inr ((hp, os), train_loss) \<Rightarrow>
                         (case validate T (tensors hp (named_parameters m)) (length val_loader)
                                 val_loader (0, 0, Num 0) of
                            (correct, n_total, val_loss) \<Rightarrow>
                              if n_total = 0 then Inl ZeroDivisionError
                              else Inr \<lparr>heap = hp, optim = os,
                                     best_model = save_decision (best_model s) (state_dict m) epoch
                                                    val_loss (real correct / real n_total),
                                     scalars = scalars s
                                               @ [(epoch, train_loss, val_loss,
                                                   real correct / real n_total)]\<rparr>))))
      | Inr _ \<Rightarrow> Inl TypeError)"

fun epochs_loop ::
  "('x, 'o) torch \<Rightarrow> config \<Rightarrow> model \<Rightarrow> 'x sample list \<Rightarrow> nat list \<Rightarrow> 'o run_state
     \<Rightarrow> py_error + 'o run_state" where
  "epochs_loop T conf m train_dataset [] s = Inr s"
| "epochs_loop T conf m train_dataset (epoch # epochs) s =
     (case run_epoch T conf m train_dataset epoch s of
        Inl e \<Rightarrow> Inl e
      | Inr s' \<Rightarrow> epochs_loop T conf m train_dataset epochs s')"

subsection \<open>The whole of \<open>train\<close>\<close>

function str_nat :: "nat \<Rightarrow> string" where
  "str_nat n = (if n < 10 then [char_of (48 + n)]
                else str_nat (n div 10) @ [char_of (48 + n mod 10)])"
  by pat_completeness auto
termination
  by (relation "measure id") auto

declare str_nat.simps [simp del]

definition best_path :: "config \<Rightarrow> string" where
  "best_path conf = ''./Assets/Models/'' @ simulation_name conf @ ''_best_model.pt''"

definition last_path :: "config \<Rightarrow> string" where
  "last_path conf = ''./Assets/Models/'' @ simulation_name conf @ ''_last_model_''
                      @ str_nat (num_epoches conf) @ ''epochs.pt''"

text \<open>The files, by path; \<open>torch.save\<close> replaces the file at its path.\<close>

type_synonym files = "(string \<times> (string \<times> tensor) list) list"

definition torch_save :: "(string \<times> tensor) list \<Rightarrow> string \<Rightarrow> files \<Rightarrow> files" where
  "torch_save content path fs = (path, content) # filter (\<lambda>(p, c). p \<noteq> path) fs"

text \<open>After the loop: the summary line subscripts \<open>best_model\<close>, which is still \<open>None\<close> when
  no epoch ran, and the two \<open>torch.save\<close> calls write the tensors as the heap has them
  then.\<close>

definition finalize :: "config \<Rightarrow> model \<Rightarrow> 'o run_state \<Rightarrow> files \<Rightarrow> py_error + files" where
  "finalize conf m s fs =
     (case best_model s of
        None \<Rightarrow> Inl TypeError
      | Some best \<Rightarrow>
          Inr (torch_save (tensors (heap s) (state_dict m)) (last_path conf)
                 (torch_save (tensors (heap s) (State_Dict best)) (best_path conf) fs)))"

text \<open>
  \<open>train\<close> returns what it did to the outside before it stopped, as a list of events, and
  either the exception that ended it or the files after the run. An unknown dataset name
  makes \<open>_get_dataset\<close> return \<open>None\<close>, whose \<open>len\<close> the split then takes; an unknown model
  name makes \<open>_get_model\<close> return \<open>None\<close>, on which \<open>.to(device)\<close> is then called.
\<close>

datatype event = DatasetLoaded string | DatasetSplit | ModelConstructed model_kind nat

definition train ::
  "('x, 'o) torch \<Rightarrow> config \<Rightarrow> files \<Rightarrow> event list \<times> (py_error + files)" where
  "train T conf fs =
     (case get_dataset T (dataset_name conf) of
        None \<Rightarrow> ([], Inl TypeError)
      | Some dataset \<Rightarrow>
          (case get_dataset_split dataset (Some ''train'') (train_test_split_size conf)
                  (seeded_perm T) of
             Inl e \<Rightarrow> ([DatasetLoaded (dataset_name conf)], Inl e)
           | Inr (Single train_dataset) \<Rightarrow>
               (case get_model (model_name conf) (model_arch conf) of
                  None \<Rightarrow> ([DatasetLoaded (dataset_name conf), DatasetSplit], Inl AttributeError)
                | Some k \<Rightarrow>
                    (case construct T k (length (get_classes dataset)) of
                       (m, hp) \<Rightarrow>
                         ([DatasetLoaded (dataset_name conf), DatasetSplit,
                           ModelConstructed k (length (get_classes dataset))],
                          (case epochs_loop T conf m train_dataset [0..<num_epoches conf]
                                  \<lparr>heap = hp, optim = adam_init T, best_model = None,
                                   scalars = []\<rparr> of
                             Inl e \<Rightarrow> Inl e
                           | Inr s \<Rightarrow> finalize conf m s fs))))
           | Inr _ \<Rightarrow> ([DatasetLoaded (dataset_name conf)], Inl TypeError)))"

subsection \<open>Vocabulary of the claims about the loops\<close>

text \<open>The losses of the successive training batches of an epoch, each computed with the
  parameters as the earlier batches left them.\<close>

fun batch_losses ::
  "('x, 'o) torch \<Rightarrow> model \<Rightarrow> 'x sample list list \<Rightarrow> tensor list \<times> 'o \<Rightarrow> pyfloat list" where
  "batch_losses T m [] s = []"
| "batch_losses T m (batch # rest) (hp, os) =
     (let params = tensors hp (named_parameters m);
          loss = criterion T params batch;
          (os', new) = adam_step T os params batch;
          hp' = write_tensors hp (map snd (named_parameters m)) new
      in loss # batch_losses T m rest (hp', os'))"

text \<open>The length-weighted average of the spec: each batch's loss weighs as many times as
  the batch has samples.\<close>

definition length_weighted_average :: "(nat \<times> pyfloat) list \<Rightarrow> pyfloat" where
  "length_weighted_average sized_losses =
     fdiv (fsum (map (\<lambda>(k, loss). fscale k loss) sized_losses))
       (sum_list (map fst sized_losses))"

definition sized_losses ::
  "('x, 'o) torch \<Rightarrow> (string \<times> tensor) list \<Rightarrow> 'x sample list list \<Rightarrow> (nat \<times> pyfloat) list" where
  "sized_losses T params batches = map (\<lambda>batch. (length batch, criterion T params batch)) batches"

text \<open>A checkpoint is the first minimum of the logged validation losses when it carries
  the loss of its own epoch, is less than or equal to every logged loss, and is less than
  every earlier one, in the comparisons of floats. A log has no NaN when none of its
  validation losses is \<open>NaN\<close>.\<close>

definition logged_val_loss :: "nat \<times> pyfloat \<times> pyfloat \<times> real \<Rightarrow> pyfloat" where
  "logged_val_loss entry = fst (snd (snd entry))"

definition first_minimum :: "(nat \<times> pyfloat \<times> pyfloat \<times> real) list \<Rightarrow> checkpoint \<Rightarrow> bool" where
  "first_minimum logged b =
     (Epoch b < length logged
      \<and> Loss b = logged_val_loss (logged ! Epoch b)
      \<and> list_all (\<lambda>entry. fle (Loss b) (logged_val_loss entry)) logged
      \<and> list_all (\<lambda>entry. fless (Loss b) (logged_val_loss entry)) (take (Epoch b) logged))"

definition no_nan :: "(nat \<times> pyfloat \<times> pyfloat \<times> real) list \<Rightarrow> bool" where
  "no_nan logged = list_all (\<lambda>entry. logged_val_loss entry \<noteq> NaN) logged"

subsection \<open>A small environment to run the loops in\<close>

text \<open>
  A dataset of \<open>n_items\<close> items whose feature is their index and whose label is its parity;
  a model with the single parameter \<open>weight\<close>, which every optimizer step raises by one;
  a loss that is the weight plus the mean feature of the batch; identity permutations of
  the \<open>n_items\<close> items for the seeded split and of \<open>n_train\<close> items for the split of each
  epoch. Its losses are numbers.
\<close>

definition toy_dataset :: "nat \<Rightarrow> nat sample list" where
  "toy_dataset n_items = map (\<lambda>i. (i, i mod 2)) [0..<n_items]"

definition toy_torch :: "nat \<Rightarrow> nat \<Rightarrow> (nat, unit) torch" where
  "toy_torch n_items n_train =
     \<lparr>load_dataset = (\<lambda>root. toy_dataset n_items),
      new_parameters = (\<lambda>k classes. [(''weight'', [0])]),
      criterion = (\<lambda>params batch.
                     Num (sum_list (concat (map snd params))
                          + sum_list (map (\<lambda>(x, y). real x) batch) / real (length batch))),
      num_correct = (\<lambda>params batch. length batch),
      adam_init = (),
      adam_step = (\<lambda>os params batch. (os, map (\<lambda>(name, v). map (\<lambda>x. x + 1) v) params)),
      seeded_perm = [0..<n_items],
      epoch_perm = (\<lambda>epoch. [0..<n_train])\<rparr>"

definition toy_config :: "nat \<Rightarrow> int \<Rightarrow> real \<Rightarrow> string \<Rightarrow> config" where
  "toy_config epochs batch_size split_size name =
     \<lparr>simulation_name = ''sim'', num_epoches = epochs, model_name = name, model_arch = None,
      dataset_name = ''demos'', train_test_split_size = split_size,
      training_batches = batch_size, testing_batches = batch_size\<rparr>"

definition toy_model :: model where
  "toy_model = \<lparr>kind = SpectrogramCNN, named_parameters = [(''weight'', 0)]\<rparr>"

definition toy_state ::
  "real \<Rightarrow> checkpoint option \<Rightarrow> (nat \<times> pyfloat \<times> pyfloat \<times> real) list
     \<Rightarrow> unit run_state" where
  "toy_state w best logged = \<lparr>heap = [[w]], optim = (), best_model = best, scalars = logged\<rparr>"

definition toy_checkpoint :: checkpoint where
  "toy_checkpoint =
     \<lparr>State_Dict = [(''weight'', 0)], Epoch = 0, Loss = Num (41 / 2), Accuracy = 1\<rparr>"

text \<open>The same environment with a loss that is \<open>NaN\<close> as long as the weight is at most 10,
  as on a diverged epoch, and 1/2 afterwards.\<close>

definition nan_torch :: "(nat, unit) torch" where
  "nan_torch =
     (toy_torch 12 12)
       \<lparr>criterion := (\<lambda>params batch.
                       if sum_list (concat (map snd params)) \<le> 10 then NaN else Num (1 / 2))\<rparr>"

definition nan_checkpoint :: checkpoint where
  "nan_checkpoint = \<lparr>State_Dict = [(''weight'', 0)], Epoch = 0, Loss = NaN, Accuracy = 1\<rparr>"

text \<open>The invariant of the loop over the epochs, before epoch \<open>k\<close>: the log has one entry
  for each of the epochs \<open>0 .. k - 1\<close>, and the best checkpoint, which exists as soon as
  one epoch has run, is the first minimum of the log if the log has no NaN.\<close>

definition loop_inv :: "nat \<Rightarrow> 'o run_state \<Rightarrow> bool" where
  "loop_inv k s =
     (map fst (scalars s) = [0..<k]
      \<and> (case best_model s of
           None \<Rightarrow> k = 0
         | Some b \<Rightarrow> no_nan (scalars s) \<longrightarrow> first_minimum (scalars s) b))"


section \<open>Model variants: modes and \<open>forward\<close> (wav2vec_models.py, utils.py)\<close>

text \<open>
  The classes that \<open>get_model\<close> selects for the model name \<open>wav2vec\<close>, by option; the flag
  is \<open>finetune_pretrained\<close>. Their sub-modules are the three parts of the pretrained
  encoder (the two feature-extractor classes keep the feature extractor only) and the
  layers that the class adds on top.
\<close>

datatype variant =
    CLSPaperFinetuning
  | FeatureExtractor bool
  | FeatureExtractorGAP bool
  | CLSToken
  | CLSTokenNotPretrained
  | Complete bool
  | FeezingEncoderOnly

fun wav2vec_option :: "string \<Rightarrow> bool \<Rightarrow> variant option" where
  "wav2vec_option opt finetuning =
     (if opt = ''partial'' then Some FeezingEncoderOnly
      else if opt = ''all'' then Some (Complete finetuning)
      else if opt = ''cnn'' then Some (FeatureExtractor finetuning)
      else if opt = ''cnn_avg'' then Some (FeatureExtractorGAP finetuning)
      else if opt = ''cls_token'' then Some CLSToken
      else if opt = ''cls_token_not_pretrained'' then Some CLSTokenNotPretrained
      else if opt = ''paper'' then Some CLSPaperFinetuning
      else None)"

datatype submodule =
    FeatureExtractorM | FeatureProjectionM | EncoderM
  | LinearLayerM | LinearProjectorM | ClsNetM | SoftmaxActivationM

fun pretrained_model :: "variant \<Rightarrow> submodule list" where
  "pretrained_model (FeatureExtractor ft) = [FeatureExtractorM]"
| "pretrained_model (FeatureExtractorGAP ft) = [FeatureExtractorM]"
| "pretrained_model v = [FeatureExtractorM, FeatureProjectionM, EncoderM]"

fun submodules :: "variant \<Rightarrow> submodule list" where
  "submodules (FeatureExtractor ft) = pretrained_model (FeatureExtractor ft) @ [LinearProjectorM]"
| "submodules (FeatureExtractorGAP ft) = pretrained_model (FeatureExtractorGAP ft) @ [ClsNetM]"
| "submodules (Complete ft) = pretrained_model (Complete ft) @ [LinearLayerM, SoftmaxActivationM]"
| "submodules FeezingEncoderOnly =
     pretrained_model FeezingEncoderOnly @ [LinearLayerM, SoftmaxActivationM]"
| "submodules v = pretrained_model v @ [LinearLayerM]"

text \<open>The sub-modules whose parameters the constructor excludes from the gradient
  (\<open>requires_grad = False\<close>); in the encoder of \<open>Wav2VecFeezingEncoderOnly\<close> these are all
  parameters but those of the normalization layers.\<close>

fun frozen :: "variant \<Rightarrow> submodule list" where
  "frozen CLSPaperFinetuning = [FeatureExtractorM]"
| "frozen (FeatureExtractor ft) = (if ft then [] else pretrained_model (FeatureExtractor ft))"
| "frozen (FeatureExtractorGAP ft) =
     (if ft then [] else pretrained_model (FeatureExtractorGAP ft))"
| "frozen (Complete ft) = (if ft then [] else pretrained_model (Complete ft))"
| "frozen FeezingEncoderOnly = [EncoderM]"
| "frozen v = []"

text \<open>
  The training flag of each sub-module. \<open>Module.train(mode)\<close> of the library sets the flag
  of the module and of all its sub-modules to \<open>mode\<close>, and \<open>Module.eval()\<close> is
  \<open>train(False)\<close>; \<open>Wav2VecComplete\<close> and \<open>Wav2VecFeezingEncoderOnly\<close> override both, the
  other classes inherit them.
\<close>

type_synonym modes = "submodule \<Rightarrow> bool"

fun set_modes :: "submodule list \<Rightarrow> bool \<Rightarrow> modes \<Rightarrow> modes" where
  "set_modes [] mode md = md"
| "set_modes (sm # sms) mode md = set_modes sms mode (md(sm := mode))"

fun train_mode :: "variant \<Rightarrow> modes \<Rightarrow> modes" where
  "train_mode (Complete ft) md =
     set_modes [LinearLayerM] True
       (if ft then set_modes (pretrained_model (Complete ft)) True md
        else set_modes (pretrained_model (Complete ft)) False md)"
| "train_mode FeezingEncoderOnly md =
     set_modes [LinearLayerM] True
       (set_modes [FeatureProjectionM] True
          (set_modes [FeatureExtractorM] True (set_modes [EncoderM] False md)))"
| "train_mode v md = set_modes (submodules v) True md"

fun eval_mode :: "variant \<Rightarrow> modes \<Rightarrow> modes" where
  "eval_mode (Complete ft) md =
     set_modes [LinearLayerM] False (set_modes (pretrained_model (Complete ft)) False md)"
| "eval_mode FeezingEncoderOnly md =
     set_modes [LinearLayerM] False (set_modes (pretrained_model FeezingEncoderOnly) False md)"
| "eval_mode v md = set_modes (submodules v) False md"

text \<open>The attributes that the constructor of each class assigns on \<open>self\<close>; reading any
  other name of the model raises \<open>AttributeError\<close>.\<close>

fun attributes :: "variant \<Rightarrow> string list" where
  "attributes CLSPaperFinetuning = [''lr'', ''num_epochs'', ''pretrained_model'', ''linear_layer'']"
| "attributes (FeatureExtractor ft) =
     [''finetune_pretrained'', ''pretrained_model'', ''linear_projector'']"
| "attributes (FeatureExtractorGAP ft) = [''finetune_pretrained'', ''pretrained_model'', ''cls_net'']"
| "attributes CLSToken = [''pretrained_model'', ''linear_layer'']"
| "attributes CLSTokenNotPretrained = [''pretrained_model'', ''linear_layer'']"
| "attributes (Complete ft) =
     [''finetune_pretrained'', ''pretrained_model'', ''linear_layer'', ''softmax_activation'']"
| "attributes FeezingEncoderOnly = [''pretrained_model'', ''linear_layer'', ''softmax_activation'']"

definition getattr :: "variant \<Rightarrow> string \<Rightarrow> py_error + string" where
  "getattr v name = (if name \<in> set (attributes v) then Inr name else Inl AttributeError)"

text \<open>
  The layers are the library's: the pretrained encoder with its pooling, which may raise
  on an input it does not accept, the head, and the softmax. \<open>forward\<close> reads each layer
  from \<open>self\<close> when it calls it; in \<open>f(g(x))\<close> Python reads \<open>f\<close> before it evaluates the
  argument.
\<close>

record ('x, 'h, 'y) layers =
  encoder :: "'x \<Rightarrow> py_error + 'h"
  head :: "'h \<Rightarrow> 'y"
  softmax :: "'y \<Rightarrow> 'y"

definition then_do :: "py_error + 'a \<Rightarrow> ('a \<Rightarrow> py_error + 'b) \<Rightarrow> py_error + 'b" where
  "then_do r f = (case r of Inl e \<Rightarrow> Inl e | Inr v \<Rightarrow> f v)"

fun forward :: "variant \<Rightarrow> ('x, 'h, 'y) layers \<Rightarrow> 'x \<Rightarrow> py_error + 'y" where
  "forward CLSPaperFinetuning L x =
     then_do (getattr CLSPaperFinetuning ''pretrained_model'') (\<lambda>_.
     then_do (encoder L x) (\<lambda>cls_token.
     then_do (getattr CLSPaperFinetuning ''linear_layer'') (\<lambda>_.
       Inr (head L cls_token))))"
| "forward (FeatureExtractor ft) L x =
     then_do (getattr (FeatureExtractor ft) ''finetune_pretrained'') (\<lambda>_.
     then_do (getattr (FeatureExtractor ft) ''pretrained_model'') (\<lambda>_.
     then_do (encoder L x) (\<lambda>features.
     then_do (getattr (FeatureExtractor ft) ''linear_projector'') (\<lambda>_.
       Inr (head L features)))))"
| "forward (FeatureExtractorGAP ft) L x =
     then_do (getattr (FeatureExtractorGAP ft) ''finetune_pretrained'') (\<lambda>_.
     then_do (getattr (FeatureExtractorGAP ft) ''pretrained_model'') (\<lambda>_.
     then_do (encoder L x) (\<lambda>features.
     then_do (getattr (FeatureExtractorGAP ft) ''cls_net'') (\<lambda>_.
       Inr (head L features)))))"
| "forward CLSToken L x =
     then_do (getattr CLSToken ''pretrained_model'') (\<lambda>_.
     then_do (encoder L x) (\<lambda>cls_token.
     then_do (getattr CLSToken ''linear_layer'') (\<lambda>_.
       Inr (head L cls_token))))"
| "forward CLSTokenNotPretrained L x =
     then_do (getattr CLSTokenNotPretrained ''pretrained_model'') (\<lambda>_.
     then_do (encoder L x) (\<lambda>cls_token.
     then_do (getattr CLSTokenNotPretrained ''softmax_activation'') (\<lambda>_.
     then_do (getattr CLSTokenNotPretrained ''linear_layer'') (\<lambda>_.
       Inr (softmax L (head L cls_token))))))"
| "forward (Complete ft) L x =
     then_do (getattr (Complete ft) ''finetune_pretrained'') (\<lambda>_.
     then_do (getattr (Complete ft) ''pretrained_model'') (\<lambda>_.
     then_do (encoder L x) (\<lambda>embedding.
     then_do (getattr (Complete ft) ''softmax_activation'') (\<lambda>_.
     then_do (getattr (Complete ft) ''linear_layer'') (\<lambda>_.
       Inr (softmax L (head L embedding)))))))"
| "forward FeezingEncoderOnly L x =
     then_do (getattr FeezingEncoderOnly ''pretrained_model'') (\<lambda>_.
     then_do (encoder L x) (\<lambda>embedding.
     then_do (getattr FeezingEncoderOnly ''softmax_activation'') (\<lambda>_.
     then_do (getattr FeezingEncoderOnly ''linear_layer'') (\<lambda>_.
       Inr (softmax L (head L embedding))))))"


section \<open>Properties of the split engine\<close>

subsection \<open>Rounding\<close>

lemma py_round_of_int: "py_round (of_int z) = z"
  by (simp add: py_round_def)

lemma py_round_nonneg: "0 \<le> x \<Longrightarrow> 0 \<le> py_round x"
  by (simp add: py_round_def Let_def)

lemma py_round_le_int:
  assumes "x \<le> of_int z"
  shows "py_round x \<le> z"
proof (cases "\<lfloor>x\<rfloor> = z")
  case True
  then have "x - of_int \<lfloor>x\<rfloor> \<le> 0" using assms by simp
  then show ?thesis using True by (simp add: py_round_def Let_def)
next
  case False
  have "\<lfloor>x\<rfloor> \<le> z" using assms by (simp add: floor_le_iff)
  then have "\<lfloor>x\<rfloor> + 1 \<le> z" using False by simp
  then show ?thesis by (simp add: py_round_def Let_def)
qed

lemma py_round_nearest:
  "\<bar>of_int (py_round x) - x\<bar> \<le> 1 / 2
   \<and> (\<bar>of_int (py_round x) - x\<bar> = 1 / 2 \<longrightarrow> even (py_round x))"
proof -
  define n where "n = \<lfloor>x\<rfloor>"
  define d where "d = x - of_int n"
  have d0: "0 \<le> d" and d1: "d < 1" unfolding d_def n_def by linarith+
  have r: "py_round x
             = (if d < 1 / 2 then n else if 1 / 2 < d then n + 1 else if even n then n else n + 1)"
    by (simp add: py_round_def Let_def n_def d_def)
  have e: "of_int (py_round x) - x = of_int (py_round x) - of_int n - d"
    by (simp add: d_def)
  show ?thesis
    unfolding e unfolding r using d0 d1 by (auto simp: abs_if)
qed

lemma ulp_pos: "0 < ulp x"
  by (simp add: ulp_def)

lemma exponent_le:
  assumes "0 < x" and "x < 2 ^ 53"
  shows "exponent x \<le> 52"
proof (cases "1 \<le> x")
  case True
  have "\<lfloor>x\<rfloor> < 2 ^ 53" using assms(2) by (simp add: floor_less_iff)
  then have "bitlen \<lfloor>x\<rfloor> \<le> 53" using bitlen_le_iff_power [of "\<lfloor>x\<rfloor>" 53] by simp
  then show ?thesis using True by (simp add: exponent_def)
next
  case False
  have "0 \<le> bitlen (\<lceil>1 / x\<rceil> - 1)" by (rule bitlen_nonneg)
  then show ?thesis using False by (simp add: exponent_def)
qed

lemma to_double_nonneg: "0 \<le> x \<Longrightarrow> 0 \<le> to_double x"
proof -
  assume x: "0 \<le> x"
  have "0 \<le> x / ulp x" using x ulp_pos [of x] by simp
  then have "0 \<le> py_round (x / ulp x)" by (rule py_round_nonneg)
  then show ?thesis using x ulp_pos [of x] by (simp add: to_double_def)
qed

lemma to_double_le_int:
  assumes "0 \<le> x" and "x \<le> of_int M" and "x < 2 ^ 53"
  shows "to_double x \<le> of_int M"
proof (cases "x = 0")
  case True
  then show ?thesis using assms by (simp add: to_double_def)
next
  case False
  then have pos: "0 < x" using assms(1) by simp
  have e: "exponent x \<le> 52" using exponent_le [OF pos assms(3)] .
  define j where "j = nat (52 - exponent x)"
  have u: "ulp x = 1 / 2 ^ j"
    using e by (cases "exponent x = 52") (simp_all add: ulp_def j_def)
  have "x / ulp x \<le> of_int (M * 2 ^ j)"
    using assms(2) by (simp add: u)
  then have "py_round (x / ulp x) \<le> M * 2 ^ j" by (rule py_round_le_int)
  then have "real_of_int (py_round (x / ulp x)) \<le> real_of_int (M * 2 ^ j)"
    by (simp only: of_int_le_iff)
  then have "real_of_int (py_round (x / ulp x)) * ulp x \<le> of_int M"
    by (simp add: u field_simps)
  then show ?thesis using pos by (simp add: to_double_def)
qed

lemma to_double_nat:
  assumes "n < 2 ^ 53"
  shows "to_double (real n) = real n"
proof (cases "n = 0")
  case True
  then show ?thesis by (simp add: to_double_def)
next
  case False
  then have pos: "0 < real n" by simp
  have "real n < 2 ^ 53" using assms by (metis of_nat_less_iff of_nat_numeral of_nat_power)
  then have e: "exponent (real n) \<le> 52" using exponent_le [OF pos] by simp
  define j where "j = nat (52 - exponent (real n))"
  have u: "ulp (real n) = 1 / 2 ^ j"
    using e by (cases "exponent (real n) = 52") (simp_all add: ulp_def j_def)
  have "real n / ulp (real n) = of_int (int n * 2 ^ j)" by (simp add: u)
  then have "py_round (real n / ulp (real n)) = int n * 2 ^ j"
    by (simp only: py_round_of_int)
  then show ?thesis using pos by (simp add: to_double_def u)
qed

lemma exponent_bounds:
  assumes "0 < x"
  shows "2 powi exponent x \<le> x \<and> x < 2 powi (exponent x + 1)"
proof (cases "1 \<le> x")
  case True
  then have f: "0 < \<lfloor>x\<rfloor>" by linarith
  let ?b = "bitlen \<lfloor>x\<rfloor>"
  have b1: "1 \<le> ?b" using f bitlen_eq_zero_iff [of "\<lfloor>x\<rfloor>"] bitlen_nonneg [of "\<lfloor>x\<rfloor>"] by linarith
  from bitlen_bounds [OF f] have lo: "2 ^ nat (?b - 1) \<le> \<lfloor>x\<rfloor>" and hi: "\<lfloor>x\<rfloor> < 2 ^ nat ?b"
    by simp_all
  have "real_of_int (2 ^ nat (?b - 1)) \<le> real_of_int \<lfloor>x\<rfloor>" using lo by (simp only: of_int_le_iff)
  then have l: "(2::real) ^ nat (?b - 1) \<le> x" by (simp add: le_floor_iff)
  have "\<lfloor>x\<rfloor> + 1 \<le> 2 ^ nat ?b" using hi by simp
  then have "real_of_int (\<lfloor>x\<rfloor> + 1) \<le> real_of_int (2 ^ nat ?b)" by (simp only: of_int_le_iff)
  then have h: "x < (2::real) ^ nat ?b" by simp linarith
  show ?thesis
    using True b1 l h by (simp add: exponent_def power_int_def)
next
  case False
  then have x1: "x < 1" by simp
  let ?m = "\<lceil>1 / x\<rceil>"
  have y: "1 < 1 / x" using assms x1 by simp
  then have m2: "2 \<le> ?m" by linarith
  then have f: "0 < ?m - 1" by simp
  let ?j = "bitlen (?m - 1)"
  have j1: "1 \<le> ?j" using f bitlen_eq_zero_iff [of "?m - 1"] bitlen_nonneg [of "?m - 1"] by linarith
  from bitlen_bounds [OF f] have lo: "2 ^ nat (?j - 1) \<le> ?m - 1" and hi: "?m - 1 < 2 ^ nat ?j"
    by simp_all
  have "?m \<le> 2 ^ nat ?j" using hi by simp
  then have p: "real_of_int ?m \<le> real_of_int (2 ^ nat ?j)" by (simp only: of_int_le_iff)
  have c: "1 / x \<le> real_of_int ?m" by (rule le_of_int_ceiling)
  have "1 / x \<le> real_of_int (2 ^ nat ?j)" by (rule order_trans [OF c p])
  then have "1 / x \<le> 2 ^ nat ?j" by simp
  then have l: "1 / 2 ^ nat ?j \<le> x" using assms by (simp add: field_simps)
  have q: "real_of_int (2 ^ nat (?j - 1)) \<le> real_of_int (?m - 1)"
    using lo by (simp only: of_int_le_iff)
  have c': "real_of_int (?m - 1) < 1 / x" by linarith
  have "real_of_int (2 ^ nat (?j - 1)) < 1 / x" by (rule le_less_trans [OF q c'])
  then have "2 ^ nat (?j - 1) < 1 / x" by simp
  then have h: "x < 1 / 2 ^ nat (?j - 1)" using assms by (simp add: field_simps)
  have nj: "nat (?j - 1) = nat ?j - 1" by simp
  show ?thesis
    using False j1 l h by (simp add: exponent_def power_int_def field_simps nj)
qed

lemma to_double_nearest:
  assumes "0 < x"
  shows "\<bar>to_double x - x\<bar> \<le> ulp x / 2"
proof -
  have u: "0 < ulp x" by (rule ulp_pos)
  have "\<bar>of_int (py_round (x / ulp x)) - x / ulp x\<bar> \<le> 1 / 2"
    using py_round_nearest [of "x / ulp x"] by blast
  then have "\<bar>of_int (py_round (x / ulp x)) - x / ulp x\<bar> * ulp x \<le> 1 / 2 * ulp x"
    using u by (simp only: mult_le_cancel_right_pos)
  moreover have "\<bar>of_int (py_round (x / ulp x)) - x / ulp x\<bar> * ulp x
                  = \<bar>of_int (py_round (x / ulp x)) * ulp x - x\<bar>"
  proof -
    have "\<bar>of_int (py_round (x / ulp x)) - x / ulp x\<bar> * ulp x
            = \<bar>(of_int (py_round (x / ulp x)) - x / ulp x) * ulp x\<bar>"
      using u by (simp add: abs_mult)
    also have "(of_int (py_round (x / ulp x)) - x / ulp x) * ulp x
                 = of_int (py_round (x / ulp x)) * ulp x - x"
      using u by (simp add: field_simps)
    finally show ?thesis .
  qed
  ultimately show ?thesis using assms by (simp add: to_double_def)
qed

lemma py_round_bounds:
  assumes "0 \<le> x" and "x \<le> real n"
  shows "0 \<le> py_round x \<and> py_round x \<le> int n"
  using py_round_nonneg [OF assms(1)] py_round_le_int [of x "int n"] assms(2) by simp

lemma float_product_bounds:
  assumes "n < 2 ^ 53" and "0 \<le> f" and "f \<le> 1"
  shows "0 \<le> float_product n f \<and> float_product n f \<le> real n"
proof -
  have g0: "0 \<le> to_double f" using assms(2) by (rule to_double_nonneg)
  have "f < 2 ^ 53" using assms(3) by (rule le_less_trans) simp
  then have g1: "to_double f \<le> 1" using to_double_le_int [of f 1] assms(2,3) by simp
  have n: "to_double (real n) = real n" using assms(1) by (rule to_double_nat)
  have x0: "0 \<le> real n * to_double f" using g0 by simp
  have x1: "real n * to_double f \<le> real n" using g1 by (simp add: mult_left_le)
  have "real n < 2 ^ 53" using assms(1) by (metis of_nat_less_iff of_nat_numeral of_nat_power)
  then have x2: "real n * to_double f < 2 ^ 53" using x1 by linarith
  have "to_double (real n * to_double f) \<le> of_int (int n)"
    using to_double_le_int [OF x0 _ x2, of "int n"] x1 by simp
  then show ?thesis
    using to_double_nonneg [OF x0] by (simp add: float_product_def n)
qed

subsection \<open>The two subsets\<close>

lemma py_slice_prefix:
  assumes "0 \<le> a" and "a \<le> int (length xs)"
  shows "py_slice xs 0 a = take (nat a) xs"
  using assms by (simp add: py_slice_def slice_bound_def Let_def)

lemma py_slice_suffix:
  assumes "0 \<le> a" and "a \<le> int (length xs)"
  shows "py_slice xs a (int (length xs)) = drop (nat a) xs"
  using assms by (simp add: py_slice_def slice_bound_def Let_def)

lemma split_dataset_total:
  "\<exists>a b. split_dataset dataset f perm = Inr (a, b)"
  by (simp add: split_dataset_def random_split_def split_lengths_def)

lemma get_dataset_split_train:
  "\<exists>train_dataset. get_dataset_split dataset (Some ''train'') f perm = Inr (Single train_dataset)"
proof -
  obtain a b where "split_dataset dataset f perm = Inr (a, b)"
    using split_dataset_total by blast
  then show ?thesis by (simp add: get_dataset_split_def)
qed

lemma split_dataset_eq:
  assumes "length dataset < 2 ^ 53" and "0 \<le> f" and "f \<le> 1"
    and "length perm = length dataset"
  shows "split_dataset dataset f perm =
           Inr (subset_at dataset (take (nat (py_round (float_product (length dataset) f))) perm),
                subset_at dataset (drop (nat (py_round (float_product (length dataset) f))) perm))"
proof -
  let ?n = "length dataset"
  let ?a = "py_round (float_product ?n f)"
  have "0 \<le> float_product ?n f" and "float_product ?n f \<le> real ?n"
    using float_product_bounds [OF assms(1,2,3)] by simp_all
  then have a: "0 \<le> ?a" "?a \<le> int (length perm)"
    using py_round_bounds [of "float_product ?n f" ?n] assms(4) by simp_all
  have s1: "py_slice perm 0 ?a = take (nat ?a) perm"
    using py_slice_prefix [OF a] by simp
  have s2: "py_slice perm ?a (int ?n) = drop (nat ?a) perm"
    using py_slice_suffix [OF a] assms(4) by simp
  show ?thesis
    by (simp add: split_dataset_def random_split_def split_lengths_def s1 s2)
qed

text \<open>
  C7. For a dataset of \<open>N \<ge> 1\<close> items, with \<open>N\<close> below \<open>2^53\<close>, and a fraction \<open>f\<close> between 0
  and 1, with any permutation of the right length drawn by the generator, \<open>split_dataset\<close>
  and \<open>_get_dataset_split\<close> return the same two subsets: the first has \<open>round(N * f)\<close>
  items, the second \<open>N - round(N * f)\<close>, and the two sizes add up to \<open>N\<close>. Here \<open>N * f\<close> is
  the product as Python computes it, a double, and \<open>round\<close> takes it to the nearest
  integer, to the even one of the two when it lies halfway.
\<close>

theorem split_dataset_sizes:
  assumes "1 \<le> length dataset" and "length dataset < 2 ^ 53"
    and "0 \<le> f" and "f \<le> 1" and "length perm = length dataset"
  shows "\<exists>a b. split_dataset dataset f perm = Inr (a, b)
           \<and> get_dataset_split dataset (Some ''both'') f perm = Inr (Both a b)
           \<and> int (length a) = py_round (float_product (length dataset) f)
           \<and> int (length b) = int (length dataset) - py_round (float_product (length dataset) f)
           \<and> length a + length b = length dataset
           \<and> \<bar>real (length a) - float_product (length dataset) f\<bar> \<le> 1 / 2
           \<and> (\<bar>real (length a) - float_product (length dataset) f\<bar> = 1 / 2
                \<longrightarrow> even (length a))"
proof -
  let ?n = "length dataset"
  let ?p = "float_product ?n f"
  let ?a = "py_round ?p"
  have "0 \<le> ?p" and "?p \<le> real ?n"
    using float_product_bounds [OF assms(2,3,4)] by simp_all
  then have a: "0 \<le> ?a" "?a \<le> int ?n"
    using py_round_bounds [of ?p ?n] by simp_all
  have len: "length (take (nat ?a) perm) = nat ?a" using a assms(5) by simp
  have r: "real (nat ?a) = real_of_int ?a" using a by simp
  have near: "\<bar>real (nat ?a) - ?p\<bar> \<le> 1 / 2
              \<and> (\<bar>real (nat ?a) - ?p\<bar> = 1 / 2 \<longrightarrow> even (nat ?a))"
    using py_round_nearest [of ?p] a unfolding r by (simp add: even_nat_iff)
  show ?thesis
    using a assms(5) near
    by (simp add: get_dataset_split_def split_dataset_eq [OF assms(2,3,4,5)] subset_at_def)
qed

lemma split_examples:
  "py_round (float_product 45 (7 / 10)) = 31"
  "py_round (float_product 5 (1 / 10)) = 0"
  "py_round (float_product 10 (77 / 100)) = 8"
  by code_simp+

theorem split_dataset_sizes_witness:
  "(\<exists>a b. split_dataset [0..<45] (7 / 10) [0..<45] = Inr (a, b)
       \<and> length a = 31 \<and> length b = 14)
   \<and> (\<exists>a b. split_dataset [0..<5] (1 / 10) [0..<5] = Inr (a, b)
       \<and> length a = 0 \<and> length b = 5)
   \<and> (\<exists>a b. split_dataset [0..<10] (77 / 100) [0..<10] = Inr (a, b)
       \<and> length a = 8 \<and> length b = 2)"
  using split_dataset_sizes [of "[0..<45]" "7 / 10" "[0..<45]"]
    split_dataset_sizes [of "[0..<5]" "1 / 10" "[0..<5]"]
    split_dataset_sizes [of "[0..<10]" "77 / 100" "[0..<10]"]
  by (simp add: split_examples) force


section \<open>Properties of the staged optimizer scheduler\<close>

lemma Adam_opt_of: "Adam ps r = opt_of ps r r" by (simp add: Adam_def opt_of_def)
lemma set_lr_opt_of: "set_lr r' (opt_of ps r b) = opt_of ps r' b" by (simp add: set_lr_def opt_of_def)
lemma opt_of_sel: "defaults_lr (opt_of ps r b) = b" "param_groups (opt_of ps r b) = [\<lparr>pg_params = ps, pg_lr = r\<rparr>]"
  "group_lrs (opt_of ps r b) = [r]" "group_params (opt_of ps r b) = ps"
  by (simp_all add: opt_of_def group_lrs_def group_params_def)

lemma progress_le: "1 \<le> E \<Longrightarrow> (real_of_int e / real_of_int E \<le> 3 / 10) = (10 * e \<le> 3 * E)"
proof -
  assume "1 \<le> E"
  then have "0 < real_of_int E" by simp
  then have "(real_of_int e / real_of_int E \<le> 3 / 10) = (10 * real_of_int e \<le> 3 * real_of_int E)"
    by (simp add: field_simps)
  also have "\<dots> = (real_of_int (10 * e) \<le> real_of_int (3 * E))" by simp
  also have "\<dots> = (10 * e \<le> 3 * E)" by (simp only: of_int_le_iff)
  finally show ?thesis .
qed

lemma warmup_scale: "0 \<le> e \<Longrightarrow> e < W \<Longrightarrow> min 1 ((real_of_int e + 1) / real_of_int W) = (real_of_int e + 1) / real_of_int W"
proof -
  assume "0 \<le> e" and "e < W"
  then have "real_of_int (e + 1) \<le> real_of_int W" and "0 < real_of_int W"
    by (simp_all only: of_int_le_iff of_int_0_less_iff)
  then have "(real_of_int e + 1) / real_of_int W \<le> 1" by simp
  then show ?thesis by (simp only: min_def) simp
qed

lemma decay_scale: "H \<le> e \<Longrightarrow> H < E \<Longrightarrow>
   min 1 (1 - (real_of_int e - real_of_int H) / (real_of_int E - real_of_int H))
     = 1 - (real_of_int e - real_of_int H) / (real_of_int E - real_of_int H)"
proof -
  assume "H \<le> e" and "H < E"
  then have "0 \<le> (real_of_int e - real_of_int H) / (real_of_int E - real_of_int H)"
    by (intro divide_nonneg_pos) simp_all
  then show ?thesis by (simp only: min_def) simp
qed

lemma half_less: "1 \<le> (E::int) \<Longrightarrow> E div 2 < E" by simp

lemma optimizer_step_opt_of:
  assumes E: "1 \<le> self_num_epochs self" and e: "0 \<le> e"
  shows "optimizer_step self e (opt_of ps r b) idx h =
           (if idx = active_idx (self_num_epochs self) e
            then Inr (opt_of ps (next_rate (self_num_epochs self) e b r) b,
                      step_params (next_rate (self_num_epochs self) e b r) ps h)
            else Inr (opt_of ps r b, h))"
proof -
  let ?E = "self_num_epochs self"
  have nz: "?E \<noteq> 0" using E by simp
  have act: "((3 / 10 \<ge> real_of_int e / real_of_int ?E \<and> idx = 0)
            \<or> (3 / 10 < real_of_int e / real_of_int ?E \<and> idx = 1)) = (idx = active_idx ?E e)"
    using progress_le [OF E, of e] by (auto simp: active_idx_def not_le [symmetric])
  have unf: "optimizer_step self e (opt_of ps r b) idx h =
     (if idx = active_idx ?E e
      then
        (if e < ?E div 10 then
           (if ?E div 10 = 0 then Inl ZeroDivisionError
            else
              let lr_scale = min 1 (real_of_int (e + 1) / real_of_int (?E div 10));
                  opt' = set_lr (lr_scale * defaults_lr (opt_of ps r b)) (opt_of ps r b)
              in Inr (opt', step (param_groups opt') h))
         else if e \<ge> ?E div 2 then
           (if ?E - ?E div 2 = 0 then Inl ZeroDivisionError
            else
              let lr_scale = min 1 (1 - real_of_int (e - ?E div 2) / real_of_int (?E - ?E div 2));
                  opt' = set_lr (lr_scale * defaults_lr (opt_of ps r b)) (opt_of ps r b)
              in Inr (opt', step (param_groups opt') h))
         else Inr (opt_of ps r b, step (param_groups (opt_of ps r b)) h))
      else Inr (opt_of ps r b, h))"
    unfolding optimizer_step_def by (simp only: act nz if_False)
  consider (warm) "e < ?E div 10" | (const) "?E div 10 \<le> e" "e < ?E div 2" | (decay) "?E div 10 \<le> e" "?E div 2 \<le> e"
    by linarith
  then show ?thesis
  proof cases
    case warm
    then have w: "?E div 10 \<noteq> 0" using e by linarith
    show ?thesis unfolding unf using warm w
      by (simp add: Let_def set_lr_opt_of opt_of_sel next_rate_def schedule_def warmup_scale [OF e warm])
  next
    case const
    then show ?thesis unfolding unf
      by (simp add: opt_of_sel next_rate_def)
  next
    case decay
    have h: "?E div 2 < ?E" using E by simp
    then have d: "?E - ?E div 2 \<noteq> 0" by simp
    have nw: "\<not> e < ?E div 10" "\<not> e < ?E div 2" using decay by simp_all
    show ?thesis unfolding unf using decay d nw
      by (simp add: Let_def set_lr_opt_of opt_of_sel next_rate_def schedule_def decay_scale [OF decay(2) h])
  qed
qed

lemma init_trainer_of: "init_trainer self = trainer_of (self_lr self) (self_lr self) (\<lambda>p. []) (self_lr self)"
  by (simp add: init_trainer_def configure_optimizers_def Adam_opt_of trainer_of_def)

lemma training_batch_of:
  assumes "1 \<le> self_num_epochs self" and "0 \<le> e"
  shows "training_batch self e (trainer_of r0 r1 h b) =
           Inr (if 10 * e \<le> 3 * self_num_epochs self
                then trainer_of (next_rate (self_num_epochs self) e b r0) r1
                       (step_params (next_rate (self_num_epochs self) e b r0) [LinearLayerP] h) b
                else trainer_of r0 (next_rate (self_num_epochs self) e b r1)
                       (step_params (next_rate (self_num_epochs self) e b r1)
                          [FeatureProjectionP, EncoderP, LinearLayerP] h) b)"
  by (simp add: training_batch_def trainer_of_def optimizer_step_opt_of [OF assms] active_idx_def)

lemma next_rate_ok:
  "rate_ok E e b r0 r1 \<Longrightarrow> next_rate E e b (if 10 * e \<le> 3 * E then r0 else r1) = schedule E e b"
  by (auto simp: rate_ok_def next_rate_def schedule_def)

lemma training_epoch_of:
  assumes E: "1 \<le> self_num_epochs self" and e: "0 \<le> e"
  shows "rate_ok (self_num_epochs self) e b r0 r1 \<Longrightarrow>
         training_epoch self e nb (trainer_of r0 r1 h b) =
           Inr (epoch_result (self_num_epochs self) e nb r0 r1 h b)"
proof (induction nb arbitrary: r0 r1 h)
  case 0
  show ?case by (simp add: epoch_result_def)
next
  case (Suc n)
  let ?E = "self_num_epochs self"
  let ?s = "schedule ?E e b"
  show ?case
  proof (cases "10 * e \<le> 3 * ?E")
    case True
    have nr: "next_rate ?E e b r0 = ?s" using next_rate_ok [OF Suc.prems] True by simp
    have ok: "rate_ok ?E e b ?s r1" using True by (simp add: rate_ok_def schedule_def)
    show ?thesis
      using True Suc.IH [OF ok]
      by (simp add: training_batch_of [OF E e] nr epoch_result_def funpow_swap1)
  next
    case False
    have nr: "next_rate ?E e b r1 = ?s" using next_rate_ok [OF Suc.prems] False by simp
    have ok: "rate_ok ?E e b r0 ?s" using False by (simp add: rate_ok_def schedule_def)
    show ?thesis
      using False Suc.IH [OF ok]
      by (simp add: training_batch_of [OF E e] nr epoch_result_def funpow_swap1)
  qed
qed

lemma rate_inv_ok: "rate_inv E k b r0 r1 \<Longrightarrow> rate_ok E k b r0 r1"
  by (auto simp: rate_inv_def rate_ok_def)

lemma schedule_last_warmup: "0 \<le> k \<Longrightarrow> k + 1 = E div 10 \<Longrightarrow> schedule E k b = b"
  by (simp add: schedule_def)

lemma schedule_first_decay: "1 \<le> E \<Longrightarrow> schedule E (E div 2) b = b"
proof -
  assume "1 \<le> E"
  then have "\<not> E div 2 < E div 10" by linarith
  then show ?thesis by (simp add: schedule_def)
qed

lemma schedule_const: "E div 10 \<le> k \<Longrightarrow> k < E div 2 \<Longrightarrow> schedule E k b = b"
  by (simp add: schedule_def)

lemma rate_inv_step0:
  assumes "1 \<le> E" and "0 \<le> k" and "10 * k \<le> 3 * E" and "rate_inv E k b r0 r1"
  shows "rate_inv E (k + 1) b (schedule E k b) r1"
proof -
  have "schedule E k b = b" if le: "E div 10 \<le> k + 1"
  proof -
    consider "k + 1 = E div 10" | "E div 10 \<le> k" "k < E div 2" | "E div 10 \<le> k" "E div 2 \<le> k"
      using le by linarith
    then show ?thesis
    proof cases
      case 1
      then show ?thesis using schedule_last_warmup [OF assms(2)] by simp
    next
      case 2
      then show ?thesis by (simp add: schedule_const)
    next
      case 3
      then have "k = E div 2" using assms(1,3) by linarith
      then show ?thesis using schedule_first_decay [OF assms(1)] by simp
    qed
  qed
  moreover have "r1 = b" if "k + 1 \<le> E div 2"
    using that assms(4) by (simp add: rate_inv_def)
  ultimately show ?thesis by (simp add: rate_inv_def)
qed

lemma rate_inv_step1:
  assumes "1 \<le> E" and "0 \<le> k" and "\<not> 10 * k \<le> 3 * E" and "rate_inv E k b r0 r1"
  shows "rate_inv E (k + 1) b r0 (schedule E k b)"
proof -
  have w: "E div 10 \<le> k" using assms(1,3) by linarith
  then have "r0 = b" using assms(4) by (simp add: rate_inv_def)
  moreover have "schedule E k b = b" if "k + 1 \<le> E div 2"
    using that w by (simp add: schedule_const)
  ultimately show ?thesis by (simp add: rate_inv_def)
qed

lemma funpow_step_head:
  "(step_params s [LinearLayerP] ^^ n) h LinearLayerP = h LinearLayerP @ replicate n s"
  by (induction n) (simp_all add: replicate_append_same)

lemma funpow_step_chain:
  "(step_params s [FeatureProjectionP, EncoderP, LinearLayerP] ^^ n) h LinearLayerP
     = h LinearLayerP @ replicate n s"
  by (induction n) (simp_all add: replicate_append_same)

lemma epoch_result_cases:
  assumes "1 \<le> nb"
  shows "epoch_result E e nb r0 r1 h b =
           trainer_of (if 10 * e \<le> 3 * E then schedule E e b else r0)
                      (if 10 * e \<le> 3 * E then r1 else schedule E e b)
                      (updates (epoch_result E e nb r0 r1 h b)) b
         \<and> updates (epoch_result E e nb r0 r1 h b) LinearLayerP
             = h LinearLayerP @ replicate nb (schedule E e b)"
  using assms by (simp add: epoch_result_def trainer_of_def funpow_step_head funpow_step_chain)

lemma fit_epochs_of:
  assumes E: "1 \<le> self_num_epochs self" and nb: "1 \<le> nb"
  shows "rate_inv (self_num_epochs self) (int m) b r0 r1 \<Longrightarrow>
         \<exists>r0' r1' h'.
           fit_epochs self nb (map int [m..<m + n]) (trainer_of r0 r1 h b)
             = Inr (trainer_of r0' r1' h' b)
           \<and> rate_inv (self_num_epochs self) (int (m + n)) b r0' r1'
           \<and> h' LinearLayerP = h LinearLayerP
                 @ concat (map (\<lambda>k. replicate nb (schedule (self_num_epochs self) (int k) b)) [m..<m + n])
           \<and> (0 < n \<longrightarrow>
                 (if 10 * int (m + n - 1) \<le> 3 * self_num_epochs self then r0' else r1')
                   = schedule (self_num_epochs self) (int (m + n - 1)) b)"
proof (induction n arbitrary: m r0 r1 h)
  case 0
  then show ?case by auto
next
  case (Suc n)
  let ?E = "self_num_epochs self"
  let ?s = "schedule ?E (int m) b"
  let ?r0 = "if 10 * int m \<le> 3 * ?E then ?s else r0"
  let ?r1 = "if 10 * int m \<le> 3 * ?E then r1 else ?s"
  let ?h = "updates (epoch_result ?E (int m) nb r0 r1 h b)"
  have ep: "training_epoch self (int m) nb (trainer_of r0 r1 h b) = Inr (trainer_of ?r0 ?r1 ?h b)"
    using training_epoch_of [OF E _ rate_inv_ok [OF Suc.prems], of nb h]
      epoch_result_cases [OF nb, of ?E "int m" r0 r1 h b] by simp
  have hl: "?h LinearLayerP = h LinearLayerP @ replicate nb ?s"
    using epoch_result_cases [OF nb, of ?E "int m" r0 r1 h b] by simp
  have inv: "rate_inv ?E (int (Suc m)) b ?r0 ?r1"
    using rate_inv_step0 [OF E _ _ Suc.prems] rate_inv_step1 [OF E _ _ Suc.prems]
    by (simp add: add.commute)
  from Suc.IH [OF inv, of ?h] obtain r0' r1' h' where
    fit: "fit_epochs self nb (map int [Suc m..<Suc m + n]) (trainer_of ?r0 ?r1 ?h b)
            = Inr (trainer_of r0' r1' h' b)"
    and inv': "rate_inv ?E (int (Suc m + n)) b r0' r1'"
    and hl': "h' LinearLayerP = ?h LinearLayerP
                @ concat (map (\<lambda>k. replicate nb (schedule ?E (int k) b)) [Suc m..<Suc m + n])"
    and last: "0 < n \<longrightarrow>
                 (if 10 * int (Suc m + n - 1) \<le> 3 * ?E then r0' else r1')
                   = schedule ?E (int (Suc m + n - 1)) b"
    by blast
  have upt: "[m..<m + Suc n] = m # [Suc m..<Suc m + n]"
    by (simp add: upt_conv_Cons)
  have run: "fit_epochs self nb (map int [m..<m + Suc n]) (trainer_of r0 r1 h b)
               = Inr (trainer_of r0' r1' h' b)"
    by (simp only: upt list.map fit_epochs.simps ep sum.case fit)
  have log: "h' LinearLayerP = h LinearLayerP
               @ concat (map (\<lambda>k. replicate nb (schedule ?E (int k) b)) [m..<m + Suc n])"
    by (simp only: upt hl' hl list.map concat.simps append_assoc)
  have fin: "(if 10 * int (m + Suc n - 1) \<le> 3 * ?E then r0' else r1')
               = schedule ?E (int (m + Suc n - 1)) b"
  proof (cases n)
    case 0
    then have "r0' = ?r0" and "r1' = ?r1"
      using fit by (simp_all add: trainer_of_def opt_of_def)
    then show ?thesis using 0 by simp
  next
    case (Suc n')
    then show ?thesis using last by simp
  qed
  have inv'': "rate_inv ?E (int (m + Suc n)) b r0' r1'"
    using inv' by simp
  show ?case
    by (intro exI conjI impI) (rule run inv'' log fin)+
qed

lemma schedule_shape:
  assumes "1 \<le> E"
  shows "e + 1 < E div 10 \<Longrightarrow> 0 \<le> e \<Longrightarrow>
           schedule E (e + 1) b - schedule E e b = b / real_of_int (E div 10)"
    and "0 \<le> e \<Longrightarrow> e + 1 = E div 10 \<Longrightarrow> schedule E e b = b"
    and "E div 2 \<le> e \<Longrightarrow>
           schedule E (e + 1) b - schedule E e b = - (b / real_of_int (E - E div 2))"
    and "schedule E E b = 0"
proof -
  have h: "E div 2 < E" and w: "E div 10 \<le> E div 2" using assms by linarith+
  show "e + 1 < E div 10 \<Longrightarrow> 0 \<le> e \<Longrightarrow>
           schedule E (e + 1) b - schedule E e b = b / real_of_int (E div 10)"
    by (simp add: schedule_def field_simps)
  show "0 \<le> e \<Longrightarrow> e + 1 = E div 10 \<Longrightarrow> schedule E e b = b"
    by (rule schedule_last_warmup)
  show "schedule E (e + 1) b - schedule E e b = - (b / real_of_int (E - E div 2))"
    if d: "E div 2 \<le> e"
  proof -
    let ?D = "real_of_int (E - E div 2)"
    have s1: "schedule E (e + 1) b = (1 - real_of_int (e + 1 - E div 2) / ?D) * b"
      using d w by (simp add: schedule_def)
    have s0: "schedule E e b = (1 - real_of_int (e - E div 2) / ?D) * b"
      using d w by (simp add: schedule_def)
    have "real_of_int (e + 1 - E div 2) / ?D = real_of_int (e - E div 2) / ?D + 1 / ?D"
      by (simp add: add_divide_distrib diff_divide_distrib)
    then show ?thesis unfolding s1 s0 by (simp add: algebra_simps)
  qed
  show "schedule E E b = 0"
    using h w by (simp add: schedule_def)
qed

lemma next_rate_base: "next_rate E e b b = schedule E e b"
  by (simp add: next_rate_def schedule_def)

text \<open>
  C3. Run the training loop of the staged scheduler from the optimizers that
  \<open>configure_optimizers\<close> returns, for epochs \<open>0 .. e\<close> with at least one batch each. Then
  the group that is active at epoch \<open>e\<close> has the rate \<open>schedule E e base\<close>: in the warm-up
  window (the first \<open>E div 10\<close> epochs) the fraction \<open>(e + 1) / (E div 10)\<close> of the base
  rate, which rises linearly to the base rate; between the warm-up window and epoch
  \<open>E div 2\<close> the base rate; from epoch \<open>E div 2\<close> on the base rate times
  \<open>1 - (e - E div 2) / (E - E div 2)\<close>, which falls linearly towards 0. Every update the
  linear layer has received, in every batch of every epoch so far, was made at the
  schedule's rate of its epoch. With 10 epochs in all, at epoch 0 the rate of group 0 is
  \<open>1 / 1\<close> times the base rate.
\<close>

theorem staged_schedule_rates:
  assumes "1 \<le> self_num_epochs self" and "1 \<le> nb"
  shows "\<exists>t. fit_epochs self nb (map int [0..<Suc e]) (init_trainer self) = Inr t
           \<and> group_lrs (nth_optimizer t (active_idx (self_num_epochs self) (int e)))
               = [schedule (self_num_epochs self) (int e) (self_lr self)]
           \<and> updates t LinearLayerP
               = concat (map (\<lambda>k. replicate nb (schedule (self_num_epochs self) (int k) (self_lr self)))
                             [0..<Suc e])"
proof -
  let ?E = "self_num_epochs self"
  let ?b = "self_lr self"
  have inv: "rate_inv ?E (int 0) ?b ?b ?b" by (simp add: rate_inv_def)
  from fit_epochs_of [OF assms inv, of "Suc e" "\<lambda>p. []"] obtain r0 r1 h where
    fit: "fit_epochs self nb (map int [0..<Suc e]) (trainer_of ?b ?b (\<lambda>p. []) ?b)
            = Inr (trainer_of r0 r1 h ?b)"
    and hl: "h LinearLayerP
               = concat (map (\<lambda>k. replicate nb (schedule ?E (int k) ?b)) [0..<Suc e])"
    and last: "(if 10 * int e \<le> 3 * ?E then r0 else r1) = schedule ?E (int e) ?b"
    by auto
  have lrs: "group_lrs (nth_optimizer (trainer_of r0 r1 h ?b) (active_idx ?E (int e)))
               = [schedule ?E (int e) ?b]"
    using last by (cases "10 * int e \<le> 3 * ?E")
      (simp_all add: nth_optimizer_def active_idx_def trainer_of_def opt_of_sel)
  have upd: "updates (trainer_of r0 r1 h ?b) LinearLayerP
               = concat (map (\<lambda>k. replicate nb (schedule ?E (int k) ?b)) [0..<Suc e])"
    using hl by (simp add: trainer_of_def)
  show ?thesis
    unfolding init_trainer_of using fit lrs upd by blast
qed

theorem staged_schedule_rates_witness:
  "\<exists>t. fit_epochs \<lparr>self_lr = 2, self_num_epochs = 10\<rparr> 1 [0]
           (init_trainer \<lparr>self_lr = 2, self_num_epochs = 10\<rparr>) = Inr t
       \<and> group_lrs (optimizer0 t) = [1 / 1 * 2]
       \<and> updates t LinearLayerP = [1 / 1 * 2]"
  using staged_schedule_rates [of "\<lparr>self_lr = 2, self_num_epochs = 10\<rparr>" 1 0]
  by (simp add: schedule_def active_idx_def nth_optimizer_def)

text \<open>
  C4, as the code has it. While \<open>e / E \<le> 0.3\<close> a call for optimizer 1 changes nothing and
  a call for optimizer 0 performs a step, which updates the linear layer only; afterwards
  a call for optimizer 0 changes nothing and a call for optimizer 1 performs a step, which
  updates the feature projection, the encoder and the linear layer, each at the
  schedule's rate. So the encoder is not updated during the first stage, and the linear
  layer, which is the parameter of group 0, goes on being updated by group 1 after group
  0 has become inactive. At epoch 6 of 10 group 0 is inactive and group 1 steps at the
  decayed rate \<open>4 / 5\<close> of the base rate.
\<close>

theorem staged_groups:
  assumes "1 \<le> self_num_epochs self" and "0 \<le> epoch"
    and "configure_optimizers self = (opt0, opt1)"
  shows "(10 * epoch \<le> 3 * self_num_epochs self \<longrightarrow>
            optimizer_step self epoch opt1 1 h = Inr (opt1, h)
          \<and> (\<exists>opt0'. optimizer_step self epoch opt0 0 h
                  = Inr (opt0', h(LinearLayerP := h LinearLayerP
                                   @ [schedule (self_num_epochs self) epoch (self_lr self)]))))
       \<and> (3 * self_num_epochs self < 10 * epoch \<longrightarrow>
            optimizer_step self epoch opt0 0 h = Inr (opt0, h)
          \<and> (\<exists>opt1'. optimizer_step self epoch opt1 1 h
                  = Inr (opt1', h(FeatureProjectionP := h FeatureProjectionP
                                    @ [schedule (self_num_epochs self) epoch (self_lr self)],
                                  EncoderP := h EncoderP
                                    @ [schedule (self_num_epochs self) epoch (self_lr self)],
                                  LinearLayerP := h LinearLayerP
                                    @ [schedule (self_num_epochs self) epoch (self_lr self)]))))"
proof -
  have o: "opt0 = opt_of [LinearLayerP] (self_lr self) (self_lr self)"
    "opt1 = opt_of [FeatureProjectionP, EncoderP, LinearLayerP] (self_lr self) (self_lr self)"
    using assms(3) by (simp_all add: configure_optimizers_def Adam_opt_of)
  show ?thesis
    unfolding o
    by (simp add: optimizer_step_opt_of [OF assms(1,2)] active_idx_def next_rate_base)
qed

theorem staged_groups_witness:
  "optimizer_step \<lparr>self_lr = 1, self_num_epochs = 10\<rparr> 6
      (fst (configure_optimizers \<lparr>self_lr = 1, self_num_epochs = 10\<rparr>)) 0 (\<lambda>p. [])
     = Inr (fst (configure_optimizers \<lparr>self_lr = 1, self_num_epochs = 10\<rparr>), \<lambda>p. [])
   \<and> (\<exists>opt1'. optimizer_step \<lparr>self_lr = 1, self_num_epochs = 10\<rparr> 6
        (snd (configure_optimizers \<lparr>self_lr = 1, self_num_epochs = 10\<rparr>)) 1 (\<lambda>p. [])
       = Inr (opt1', (\<lambda>p. [])(FeatureProjectionP := [4 / 5], EncoderP := [4 / 5],
                                 LinearLayerP := [4 / 5])))"
  using staged_groups [of "\<lparr>self_lr = 1, self_num_epochs = 10\<rparr>" 6
      "fst (configure_optimizers \<lparr>self_lr = 1, self_num_epochs = 10\<rparr>)"
      "snd (configure_optimizers \<lparr>self_lr = 1, self_num_epochs = 10\<rparr>)" "\<lambda>p. []"]
  by (simp add: schedule_def)

text \<open>
  The claim that the parameters of a group receive no further updates once the group is
  inactive fails for group 0: at epoch 6 of 10 group 0 is inactive, the linear layer is
  its parameter, and the step of group 1 updates the linear layer.
\<close>

theorem inactive_group_parameters_counterexample:
  "LinearLayerP \<in> set (group_params (fst (configure_optimizers \<lparr>self_lr = 1, self_num_epochs = 10\<rparr>)))
   \<and> optimizer_step \<lparr>self_lr = 1, self_num_epochs = 10\<rparr> 6
        (fst (configure_optimizers \<lparr>self_lr = 1, self_num_epochs = 10\<rparr>)) 0 (\<lambda>p. [])
       = Inr (fst (configure_optimizers \<lparr>self_lr = 1, self_num_epochs = 10\<rparr>), \<lambda>p. [])
   \<and> (\<exists>opt' h'. optimizer_step \<lparr>self_lr = 1, self_num_epochs = 10\<rparr> 6
        (snd (configure_optimizers \<lparr>self_lr = 1, self_num_epochs = 10\<rparr>)) 1 (\<lambda>p. [])
       = Inr (opt', h') \<and> h' LinearLayerP \<noteq> [])"
  by (simp add: configure_optimizers_def Adam_def group_params_def optimizer_step_def set_lr_def
      Let_def)


section \<open>Properties of the training and evaluation loops\<close>

subsection \<open>The best checkpoint\<close>

lemma run_epoch_effect:
  assumes "run_epoch T conf m ds epoch s = Inr s'"
  shows "\<exists>train_loss val_loss accuracy.
           scalars s' = scalars s @ [(epoch, train_loss, val_loss, accuracy)]
           \<and> best_model s' = save_decision (best_model s) (state_dict m) epoch val_loss accuracy"
  using assms unfolding run_epoch_def
  by (auto split: sum.splits split_result.splits prod.splits if_splits)

lemma fle_refl: "a \<noteq> NaN \<Longrightarrow> fle a a"
  by (cases a) simp_all

lemma fless_not_NaN: "fless a b \<Longrightarrow> a \<noteq> NaN \<and> b \<noteq> NaN"
  by (cases a; cases b) simp_all

lemma fle_not_NaN: "fle a b \<Longrightarrow> a \<noteq> NaN \<and> b \<noteq> NaN"
  by (cases a; cases b) simp_all

lemma fless_imp_fle: "fless a b \<Longrightarrow> fle a b"
  by (cases a; cases b) simp_all

lemma fless_fle_trans: "fless a b \<Longrightarrow> fle b c \<Longrightarrow> fless a c"
  by (cases a; cases b; cases c) simp_all

lemma not_fless_fle: "a \<noteq> NaN \<Longrightarrow> b \<noteq> NaN \<Longrightarrow> \<not> fless a b \<Longrightarrow> fle b a"
  by (cases a; cases b) simp_all

lemma first_minimum_first:
  "vl \<noteq> NaN \<Longrightarrow>
   first_minimum [(0, trl, vl, acc)] \<lparr>State_Dict = sd, Epoch = 0, Loss = vl, Accuracy = acc\<rparr>"
  by (simp add: first_minimum_def logged_val_loss_def fle_refl)

lemma first_minimum_replace:
  assumes "first_minimum logged b" and "fless vl (Loss b)"
  shows "first_minimum (logged @ [(e, trl, vl, acc)])
           \<lparr>State_Dict = sd, Epoch = length logged, Loss = vl, Accuracy = acc\<rparr>"
proof -
  have "list_all (\<lambda>entry. fle (Loss b) (logged_val_loss entry)) logged"
    using assms(1) unfolding first_minimum_def by blast
  then have lt: "list_all (\<lambda>entry. fless vl (logged_val_loss entry)) logged"
    using assms(2) by (auto simp: list_all_iff intro: fless_fle_trans)
  have "vl \<noteq> NaN" using fless_not_NaN [OF assms(2)] by simp
  then have self: "fle vl vl" by (rule fle_refl)
  have le: "list_all (\<lambda>entry. fle vl (logged_val_loss entry)) logged"
    using lt by (auto simp: list_all_iff intro: fless_imp_fle)
  show ?thesis
    using lt le self by (simp add: first_minimum_def logged_val_loss_def)
qed

lemma first_minimum_keep:
  assumes "first_minimum logged b" and "\<not> fless vl (Loss b)" and "vl \<noteq> NaN"
  shows "first_minimum (logged @ [(e, trl, vl, acc)]) b"
proof -
  have "Epoch b < length logged"
    and "list_all (\<lambda>entry. fle (Loss b) (logged_val_loss entry)) logged"
    using assms(1) unfolding first_minimum_def by blast+
  then have "fle (Loss b) (logged_val_loss (logged ! Epoch b))"
    by (simp add: list_all_length)
  then have "Loss b \<noteq> NaN" using fle_not_NaN by blast
  then have "fle (Loss b) vl" using not_fless_fle [OF assms(3) _ assms(2)] by simp
  then show ?thesis
    using assms(1) by (auto simp: first_minimum_def logged_val_loss_def nth_append)
qed

lemma no_nan_append:
  "no_nan (logged @ [(e, trl, vl, acc)]) = (no_nan logged \<and> vl \<noteq> NaN)"
  by (simp add: no_nan_def logged_val_loss_def)

lemma loop_inv_step:
  assumes "loop_inv k s" and "run_epoch T conf m ds k s = Inr s'"
  shows "loop_inv (Suc k) s'"
proof -
  from run_epoch_effect [OF assms(2)] obtain trl vl acc where
    sc: "scalars s' = scalars s @ [(k, trl, vl, acc)]"
    and bm: "best_model s' = save_decision (best_model s) (state_dict m) k vl acc"
    by blast
  have idx: "map fst (scalars s) = [0..<k]" using assms(1) by (simp add: loop_inv_def)
  then have len: "length (scalars s) = k" by (metis length_map length_upt diff_zero)
  have idx': "map fst (scalars s') = [0..<Suc k]" using idx sc by simp
  show ?thesis
  proof (cases "best_model s")
    case None
    then have "k = 0" using assms(1) by (simp add: loop_inv_def)
    then have "scalars s = []" using len by simp
    then show ?thesis
      using None sc bm idx' \<open>k = 0\<close>
      by (simp add: loop_inv_def save_decision_def first_minimum_first no_nan_def
          logged_val_loss_def)
  next
    case (Some b)
    show ?thesis
    proof (cases "fless vl (Loss b)")
      case True
      have "first_minimum (scalars s @ [(k, trl, vl, acc)])
              \<lparr>State_Dict = state_dict m, Epoch = k, Loss = vl, Accuracy = acc\<rparr>"
        if "no_nan (scalars s @ [(k, trl, vl, acc)])"
      proof -
        have "first_minimum (scalars s) b"
          using that assms(1) Some by (simp add: loop_inv_def no_nan_append)
        from first_minimum_replace [OF this True, of k trl acc "state_dict m"]
        show ?thesis using len by simp
      qed
      then show ?thesis
        using Some True sc bm idx' by (simp add: loop_inv_def save_decision_def)
    next
      case False
      have "first_minimum (scalars s @ [(k, trl, vl, acc)]) b"
        if "no_nan (scalars s @ [(k, trl, vl, acc)])"
      proof -
        have "first_minimum (scalars s) b" and "vl \<noteq> NaN"
          using that assms(1) Some by (simp_all add: loop_inv_def no_nan_append)
        then show ?thesis using first_minimum_keep [OF _ False] by blast
      qed
      then show ?thesis
        using Some False sc bm idx' by (simp add: loop_inv_def save_decision_def)
    qed
  qed
qed

lemma epochs_loop_inv:
  "loop_inv k s \<Longrightarrow> epochs_loop T conf m ds [k..<k + n] s = Inr s' \<Longrightarrow> loop_inv (k + n) s'"
proof (induction n arbitrary: k s)
  case 0
  then show ?case by simp
next
  case (Suc n)
  have upt: "[k..<k + Suc n] = k # [Suc k..<Suc k + n]" by (simp add: upt_conv_Cons)
  from Suc.prems(2) obtain s1 where
    e: "run_epoch T conf m ds k s = Inr s1"
    and r: "epochs_loop T conf m ds [Suc k..<Suc k + n] s1 = Inr s'"
    unfolding upt by (auto split: sum.splits)
  have "loop_inv (Suc k + n) s'"
    using Suc.IH [OF loop_inv_step [OF Suc.prems(1) e] r] .
  then show ?case by simp
qed

text \<open>
  C6, as the code has it. Let the loop over the epochs \<open>0 .. n - 1\<close>, \<open>n \<ge> 1\<close>, run to its
  end from a state with no checkpoint and an empty log. Then a best checkpoint exists and
  the log has one entry per epoch; and if no logged validation loss is NaN, the
  checkpoint is the first minimum of the logged validation losses: its loss is the one
  logged for its epoch, it is less than or equal to every epoch's validation loss, and
  strictly less than every earlier epoch's. The first decision always records a
  checkpoint, and a later decision replaces the checkpoint only when the new validation
  loss is strictly lower than the recorded one.
\<close>

theorem best_checkpoint_first_minimum:
  assumes "epochs_loop T conf m ds [0..<n] s0 = Inr s"
    and "best_model s0 = None" and "scalars s0 = []" and "0 < n"
  shows "(\<exists>b. best_model s = Some b \<and> (no_nan (scalars s) \<longrightarrow> first_minimum (scalars s) b))
       \<and> map fst (scalars s) = [0..<n]
       \<and> (\<forall>sd e l a. save_decision None sd e l a \<noteq> None)
       \<and> (\<forall>b sd e l a. save_decision (Some b) sd e l a \<noteq> Some b \<longrightarrow> fless l (Loss b))"
proof -
  have "loop_inv 0 s0" using assms(2,3) by (simp add: loop_inv_def)
  then have inv: "loop_inv n s" using epochs_loop_inv [of 0 s0 T conf m ds n s] assms(1) by simp
  then have "best_model s \<noteq> None" using assms(4) by (auto simp: loop_inv_def split: option.splits)
  then show ?thesis using inv by (auto simp: loop_inv_def save_decision_def)
qed

lemma toy_epoch0:
  "run_epoch (toy_torch 12 12) (toy_config 2 1 1 ''cnn'') toy_model (toy_dataset 12) 0
     (toy_state 0 None [])
   = Inr (toy_state 10 (Some toy_checkpoint) [(0, Num 9, Num (41 / 2), 1)])"
  by code_simp

lemma toy_epoch1:
  "run_epoch (toy_torch 12 12) (toy_config 2 1 1 ''cnn'') toy_model (toy_dataset 12) 1
     (toy_state 10 (Some toy_checkpoint) [(0, Num 9, Num (41 / 2), 1)])
   = Inr (toy_state 20 (Some toy_checkpoint) [(0, Num 9, Num (41 / 2), 1), (1, Num 19, Num (61 / 2), 1)])"
  by code_simp

lemma toy_epochs:
  "epochs_loop (toy_torch 12 12) (toy_config 2 1 1 ''cnn'') toy_model (toy_dataset 12)
     [0..<2] (toy_state 0 None [])
   = Inr (toy_state 20 (Some toy_checkpoint) [(0, Num 9, Num (41 / 2), 1), (1, Num 19, Num (61 / 2), 1)])"
proof -
  have "[0..<2] = [0, Suc 0]" by (simp add: upt_conv_Cons numeral_2_eq_2)
  then show ?thesis using toy_epoch0 toy_epoch1 by simp
qed

theorem best_checkpoint_first_minimum_witness:
  "\<exists>s. epochs_loop (toy_torch 12 12) (toy_config 2 1 1 ''cnn'') toy_model (toy_dataset 12) [0..<2]
          (toy_state 0 None []) = Inr s
       \<and> best_model s = Some toy_checkpoint
       \<and> no_nan (scalars s)
       \<and> first_minimum (scalars s) toy_checkpoint
       \<and> map fst (scalars s) = [0..<2]"
proof -
  have start: "best_model (toy_state 0 None []) = None" "scalars (toy_state 0 None []) = []"
    by (simp_all add: toy_state_def)
  have "(0::nat) < 2" by simp
  from best_checkpoint_first_minimum [OF toy_epochs start this]
  show ?thesis
    using toy_epochs by (simp add: toy_state_def no_nan_def logged_val_loss_def)
qed

lemma nan_epoch0:
  "run_epoch nan_torch (toy_config 2 1 1 ''cnn'') toy_model (toy_dataset 12) 0
     (toy_state 0 None [])
   = Inr (toy_state 10 (Some nan_checkpoint) [(0, NaN, NaN, 1)])"
  by code_simp

lemma nan_epoch1:
  "run_epoch nan_torch (toy_config 2 1 1 ''cnn'') toy_model (toy_dataset 12) 1
     (toy_state 10 (Some nan_checkpoint) [(0, NaN, NaN, 1)])
   = Inr (toy_state 20 (Some nan_checkpoint) [(0, NaN, NaN, 1), (1, NaN, Num (1 / 2), 1)])"
  by code_simp

text \<open>
  The claim that the retained loss is at most every epoch's validation loss fails when a
  validation loss is NaN: with the validation losses NaN and 1/2 the checkpoint of epoch 0
  is recorded with the loss NaN, the lower loss of epoch 1 does not replace it, since
  \<open>0.5 < nan\<close> is false, and NaN is not less than or equal to 1/2.
\<close>

theorem nan_checkpoint_counterexample:
  "epochs_loop nan_torch (toy_config 2 1 1 ''cnn'') toy_model (toy_dataset 12) [0..<2]
      (toy_state 0 None [])
     = Inr (toy_state 20 (Some nan_checkpoint) [(0, NaN, NaN, 1), (1, NaN, Num (1 / 2), 1)])
   \<and> Loss nan_checkpoint = NaN
   \<and> \<not> fle (Loss nan_checkpoint) (Num (1 / 2))
   \<and> \<not> first_minimum [(0, NaN, NaN, 1), (1, NaN, Num (1 / 2), 1)] nan_checkpoint"
proof -
  have "[0..<2] = [0, Suc 0]" by (simp add: upt_conv_Cons numeral_2_eq_2)
  then show ?thesis
    using nan_epoch0 nan_epoch1
    by (simp add: nan_checkpoint_def first_minimum_def logged_val_loss_def)
qed

subsection \<open>What the checkpoint files hold\<close>

lemma loop_state_dict_step:
  assumes "run_epoch T conf m ds k s = Inr s'"
    and "\<forall>b. best_model s = Some b \<longrightarrow> State_Dict b = state_dict m"
  shows "\<forall>b. best_model s' = Some b \<longrightarrow> State_Dict b = state_dict m"
proof -
  from run_epoch_effect [OF assms(1)] obtain vl acc where
    "best_model s' = save_decision (best_model s) (state_dict m) k vl acc"
    by blast
  then show ?thesis using assms(2) by (auto simp: save_decision_def split: if_splits)
qed

lemma epochs_loop_state_dict:
  "epochs_loop T conf m ds epochs s = Inr s' \<Longrightarrow>
   \<forall>b. best_model s = Some b \<longrightarrow> State_Dict b = state_dict m \<Longrightarrow>
   \<forall>b. best_model s' = Some b \<longrightarrow> State_Dict b = state_dict m"
proof (induction epochs arbitrary: s)
  case Nil
  then show ?case by simp
next
  case (Cons k epochs)
  from Cons.prems(1) obtain s1 where
    e: "run_epoch T conf m ds k s = Inr s1" and r: "epochs_loop T conf m ds epochs s1 = Inr s'"
    by (auto split: sum.splits)
  show ?case using Cons.IH [OF r loop_state_dict_step [OF e Cons.prems(2)]] .
qed

lemma finalize_files:
  assumes "finalize conf m s fs = Inr fs'"
    and "\<forall>b. best_model s = Some b \<longrightarrow> State_Dict b = state_dict m"
  shows "map_of fs' (best_path conf) = Some (tensors (heap s) (state_dict m))
       \<and> map_of fs' (last_path conf) = Some (tensors (heap s) (state_dict m))"
  using assms by (auto simp: finalize_def torch_save_def split: option.splits)

lemma train_completed:
  assumes "train T conf fs = (events, Inr fs')"
  shows "\<exists>m s ds hp. epochs_loop T conf m ds [0..<num_epoches conf]
                 \<lparr>heap = hp, optim = adam_init T, best_model = None, scalars = []\<rparr> = Inr s
            \<and> finalize conf m s fs = Inr fs'"
  using assms unfolding train_def
  by (auto split: option.splits sum.splits split_result.splits prod.splits)

lemma best_file_is_last_file:
  assumes "train T conf fs = (events, Inr fs')"
  shows "\<exists>content. map_of fs' (best_path conf) = Some content
                  \<and> map_of fs' (last_path conf) = Some content"
proof -
  from train_completed [OF assms] obtain m s ds hp where
    run: "epochs_loop T conf m ds [0..<num_epoches conf]
            \<lparr>heap = hp, optim = adam_init T, best_model = None, scalars = []\<rparr> = Inr s"
    and fin: "finalize conf m s fs = Inr fs'"
    by blast
  have "\<forall>b. best_model s = Some b \<longrightarrow> State_Dict b = state_dict m"
    using epochs_loop_state_dict [OF run] by simp
  from finalize_files [OF fin this] show ?thesis by blast
qed

lemma toy_get_dataset: "get_dataset (toy_torch 12 12) ''demos'' = Some (toy_dataset 12)"
  by code_simp

lemma toy_train_split:
  "get_dataset_split (toy_dataset 12) (Some ''train'') 1 (seeded_perm (toy_torch 12 12))
     = Inr (Single (toy_dataset 12))"
  by code_simp

lemma toy_get_model: "get_model ''cnn'' None = Some SpectrogramCNN"
  by code_simp

lemma toy_classes: "length (get_classes (toy_dataset 12)) = 2"
  by code_simp

lemma toy_construct: "construct (toy_torch 12 12) SpectrogramCNN 2 = (toy_model, [[0]])"
  by code_simp

lemma toy_finalize:
  "finalize (toy_config 2 1 1 ''cnn'') toy_model
     (toy_state 20 (Some toy_checkpoint) [(0, Num 9, Num (41 / 2), 1), (1, Num 19, Num (61 / 2), 1)]) []
   = Inr [(''./Assets/Models/sim_last_model_2epochs.pt'', [(''weight'', [20])]),
          (''./Assets/Models/sim_best_model.pt'', [(''weight'', [20])])]"
  by code_simp

lemma toy_train:
  "train (toy_torch 12 12) (toy_config 2 1 1 ''cnn'') []
   = ([DatasetLoaded ''demos'', DatasetSplit, ModelConstructed SpectrogramCNN 2],
      Inr [(''./Assets/Models/sim_last_model_2epochs.pt'', [(''weight'', [20])]),
           (''./Assets/Models/sim_best_model.pt'', [(''weight'', [20])])])"
proof -
  have conf: "dataset_name (toy_config 2 1 1 ''cnn'') = ''demos''"
    "train_test_split_size (toy_config 2 1 1 ''cnn'') = 1"
    "model_name (toy_config 2 1 1 ''cnn'') = ''cnn''"
    "model_arch (toy_config 2 1 1 ''cnn'') = None"
    "num_epoches (toy_config 2 1 1 ''cnn'') = 2"
    by (simp_all add: toy_config_def)
  have init: "\<lparr>heap = [[0]], optim = adam_init (toy_torch 12 12), best_model = None, scalars = []\<rparr>
                = toy_state 0 None []"
    by (simp add: toy_state_def toy_torch_def)
  show ?thesis
    unfolding train_def
    by (simp only: conf toy_get_dataset toy_train_split toy_get_model toy_classes toy_construct
          init toy_epochs toy_finalize option.case sum.case split_result.case prod.case)
qed

text \<open>
  C1, on a run of two epochs in the small environment. Epoch 0 ends with the weight at 10
  and records the best checkpoint, whose state dictionary then reads 10; epoch 1 has the
  higher validation loss, so the checkpoint of epoch 0 stays the best one, and its ten
  optimizer steps raise the weight to 20. The state dictionary of the checkpoint is the
  model's own tensor, so the file \<open>sim_best_model.pt\<close> written at the end holds 20, the
  parameters of the final epoch, and not the 10 of the best epoch.
\<close>

theorem best_checkpoint_shares_live_parameters:
  "run_epoch (toy_torch 12 12) (toy_config 2 1 1 ''cnn'') toy_model (toy_dataset 12) 0
      (toy_state 0 None [])
     = Inr (toy_state 10 (Some toy_checkpoint) [(0, Num 9, Num (41 / 2), 1)])
   \<and> tensors (heap (toy_state 10 (Some toy_checkpoint) [(0, Num 9, Num (41 / 2), 1)]))
        (State_Dict toy_checkpoint) = [(''weight'', [10])]
   \<and> epochs_loop (toy_torch 12 12) (toy_config 2 1 1 ''cnn'') toy_model (toy_dataset 12) [0..<2]
        (toy_state 0 None [])
     = Inr (toy_state 20 (Some toy_checkpoint) [(0, Num 9, Num (41 / 2), 1), (1, Num 19, Num (61 / 2), 1)])
   \<and> Epoch toy_checkpoint = 0
   \<and> snd (train (toy_torch 12 12) (toy_config 2 1 1 ''cnn'') [])
     = Inr [(''./Assets/Models/sim_last_model_2epochs.pt'', [(''weight'', [20])]),
            (''./Assets/Models/sim_best_model.pt'', [(''weight'', [20])])]"
  using toy_epoch0 toy_epochs toy_train
  by (simp add: toy_state_def toy_checkpoint_def tensors_def)

subsection \<open>Short loaders and unknown names\<close>

lemma train_batches_few:
  "batches \<noteq> [] \<Longrightarrow> n < 10 \<Longrightarrow> train_batches T m n i batches s trl = Inl ZeroDivisionError"
  by (cases batches; cases s) (simp_all add: Let_def split: prod.splits)

text \<open>
  C5, evaluated: one epoch on a dataset of 10 items of 2 classes with training batch size
  5. The seeded split keeps 8 items, the split of the epoch 6 of them for training, the
  loader cuts them into 2 batches, and the first pass of the training loop ends the run
  with \<open>ZeroDivisionError\<close>, since \<open>len(train_loader) // 10\<close> is 0. No checkpoint is recorded
  and no file is written.
\<close>

theorem one_epoch_two_batches_division_by_zero:
  "get_dataset_split (toy_dataset 10) (Some ''train'') (8 / 10) (seeded_perm (toy_torch 10 8))
     = Inr (Single (toy_dataset 8))
   \<and> get_dataset_split (toy_dataset 8) (Some ''both'') (8 / 10) (epoch_perm (toy_torch 10 8) 0)
     = Inr (Both (toy_dataset 6) [(6, 0), (7, 1)])
   \<and> DataLoader (toy_dataset 6) 5
     = Inr [[(0, 0), (1, 1), (2, 0), (3, 1), (4, 0)], [(5, 1)]]
   \<and> train (toy_torch 10 8) (toy_config 1 5 (8 / 10) ''cnn'') []
     = ([DatasetLoaded ''demos'', DatasetSplit, ModelConstructed SpectrogramCNN 2],
        Inl ZeroDivisionError)"
  by code_simp

lemma get_model_unknown:
  "lower name \<noteq> ''cnn'' \<Longrightarrow> lower name \<noteq> ''effnet'' \<Longrightarrow> get_model name arch = None"
  by (simp add: get_model_def)

lemma get_dataset_unknown:
  "lower name \<noteq> ''demos'' \<Longrightarrow> lower name \<noteq> ''demos_short_test'' \<Longrightarrow> get_dataset T name = None"
  by (simp add: get_dataset_def)

text \<open>
  C8, as the code has it. With a dataset name that is none of the supported ones \<open>train\<close>
  fails before anything is loaded or constructed. With a supported dataset, a split
  fraction between 0 and 1 and a model name that is none of the supported ones, \<open>train\<close>
  fails only after the dataset has been loaded and split, when the missing model is first
  used. The exceptions are the ones that the use of \<open>None\<close> raises.
\<close>

theorem unknown_names_fail:
  "(lower (dataset_name conf) \<noteq> ''demos'' \<and> lower (dataset_name conf) \<noteq> ''demos_short_test''
      \<longrightarrow> train T conf fs = ([], Inl TypeError))
   \<and> (lower (model_name conf) \<noteq> ''cnn'' \<and> lower (model_name conf) \<noteq> ''effnet''
       \<and> get_dataset T (dataset_name conf) = Some dataset
       \<and> 0 \<le> train_test_split_size conf \<and> train_test_split_size conf \<le> 1
       \<and> length (seeded_perm T) = length dataset
      \<longrightarrow> train T conf fs
            = ([DatasetLoaded (dataset_name conf), DatasetSplit], Inl AttributeError))"
proof (intro conjI impI)
  assume "lower (dataset_name conf) \<noteq> ''demos'' \<and> lower (dataset_name conf) \<noteq> ''demos_short_test''"
  then have "get_dataset T (dataset_name conf) = None" by (simp add: get_dataset_unknown)
  then show "train T conf fs = ([], Inl TypeError)" by (simp add: train_def)
next
  assume a: "lower (model_name conf) \<noteq> ''cnn'' \<and> lower (model_name conf) \<noteq> ''effnet''
       \<and> get_dataset T (dataset_name conf) = Some dataset
       \<and> 0 \<le> train_test_split_size conf \<and> train_test_split_size conf \<le> 1
       \<and> length (seeded_perm T) = length dataset"
  then have m: "get_model (model_name conf) (model_arch conf) = None"
    by (simp add: get_model_unknown)
  from a obtain train_dataset where
    "get_dataset_split dataset (Some ''train'') (train_test_split_size conf) (seeded_perm T)
       = Inr (Single train_dataset)"
    using get_dataset_split_train [of dataset "train_test_split_size conf" "seeded_perm T"]
    by blast
  then show "train T conf fs
            = ([DatasetLoaded (dataset_name conf), DatasetSplit], Inl AttributeError)"
    using a m by (simp add: train_def)
qed

lemma lower_resnet: "lower ''resnet'' \<noteq> ''cnn'' \<and> lower ''resnet'' \<noteq> ''effnet''"
  by code_simp

lemma lower_ravdess: "lower ''ravdess'' \<noteq> ''demos'' \<and> lower ''ravdess'' \<noteq> ''demos_short_test''"
  by code_simp

theorem unknown_names_fail_witness:
  "train (toy_torch 12 12) ((toy_config 2 1 1 ''cnn'')\<lparr>dataset_name := ''ravdess''\<rparr>) []
     = ([], Inl TypeError)
   \<and> train (toy_torch 12 12) (toy_config 2 1 1 ''resnet'') []
     = ([DatasetLoaded ''demos'', DatasetSplit], Inl AttributeError)"
proof -
  have len: "length (seeded_perm (toy_torch 12 12)) = length (toy_dataset 12)"
    by (simp add: toy_torch_def toy_dataset_def)
  show ?thesis
    using unknown_names_fail [where conf = "(toy_config 2 1 1 ''cnn'')\<lparr>dataset_name := ''ravdess''\<rparr>"
        and T = "toy_torch 12 12" and fs = "[]" and dataset = "toy_dataset 12"]
      unknown_names_fail [where conf = "toy_config 2 1 1 ''resnet''" and T = "toy_torch 12 12"
        and fs = "[]" and dataset = "toy_dataset 12"]
      lower_resnet lower_ravdess toy_get_dataset len
    by (simp add: toy_config_def)
qed

text \<open>
  The claim that an unknown model name is reported before any data is loaded fails: with
  the model name \<open>resnet\<close> the dataset is loaded and split before \<open>train\<close> fails, and the
  failure is an \<open>AttributeError\<close>.
\<close>

theorem unknown_model_after_loading_counterexample:
  "train (toy_torch 12 12) (toy_config 2 1 1 ''resnet'') []
     = ([DatasetLoaded ''demos'', DatasetSplit], Inl AttributeError)"
  by code_simp

subsection \<open>The reported losses\<close>

lemma fadd_assoc: "fadd (fadd a b) c = fadd a (fadd b c)"
  by (cases a; cases b; cases c) simp_all

lemma fadd_zero: "fadd (Num 0) a = a" "fadd a (Num 0) = a"
  by (cases a; simp)+

lemma fdiv_fadd: "fdiv (fadd a b) n = fadd (fdiv a n) (fdiv b n)"
  by (cases a; cases b) (simp_all add: add_divide_distrib)

lemma fscale_fadd: "fscale k (fadd a b) = fadd (fscale k a) (fscale k b)"
  by (cases a; cases b) (simp_all add: distrib_left)

lemma fdiv_fscale: "0 < k \<Longrightarrow> fdiv (fscale k a) (k * n) = fdiv a n"
  by (cases a) simp_all

lemma fsum_simps: "fsum [] = Num 0" "fsum (x # xs) = fadd x (fsum xs)"
  by (simp_all add: fsum_def)

lemma validate_sums:
  "validate T params n batches (correct, n_total, val_loss) =
     (correct + sum_list (map (num_correct T params) batches),
      n_total + sum_list (map length batches),
      fadd val_loss (fdiv (fsum (map (criterion T params) batches)) n))"
  by (induction batches arbitrary: correct n_total val_loss)
    (simp_all add: fsum_simps fadd_zero fdiv_fadd fadd_assoc)

lemma test_batches_sums:
  "test_batches T params n batches (correct, n_total, loss) =
     (correct + sum_list (map (num_correct T params) batches),
      n_total + sum_list (map length batches),
      fadd loss (fdiv (fsum (map (criterion T params) batches)) n))"
  by (induction batches arbitrary: correct n_total loss)
    (simp_all add: fsum_simps fadd_zero fdiv_fadd fadd_assoc)

lemma train_batches_sums:
  "train_batches T m n i batches s train_loss = Inr (s', l) \<Longrightarrow>
   l = fadd train_loss (fdiv (fsum (batch_losses T m batches s)) n)"
proof (induction batches arbitrary: i s train_loss)
  case Nil
  then show ?case by (simp add: fsum_simps fadd_zero)
next
  case (Cons batch rest)
  obtain hp os where s: "s = (hp, os)" by (cases s)
  obtain os' new where st: "adam_step T os (tensors hp (named_parameters m)) batch = (os', new)"
    by (cases "adam_step T os (tensors hp (named_parameters m)) batch")
  let ?hp' = "write_tensors hp (map snd (named_parameters m)) new"
  let ?loss = "criterion T (tensors hp (named_parameters m)) batch"
  from Cons.prems have
    "train_batches T m n (i + 1) rest (?hp', os') (fadd train_loss (fdiv ?loss n)) = Inr (s', l)"
    by (simp add: s st Let_def split: if_splits)
  from Cons.IH [OF this] show ?case
    by (simp add: s st Let_def fsum_simps fdiv_fadd fadd_assoc)
qed

lemma equal_batches_weighted:
  assumes "\<forall>batch \<in> set batches. length batch = k" and "0 < k"
  shows "length_weighted_average (sized_losses T params batches)
           = fdiv (fsum (map (criterion T params) batches)) (length batches)"
proof -
  have a: "fsum (map (\<lambda>(k, loss). fscale k loss) (sized_losses T params batches))
             = fscale k (fsum (map (criterion T params) batches))"
    using assms(1) by (induction batches) (simp_all add: sized_losses_def fsum_simps fscale_fadd)
  have b: "sum_list (map fst (sized_losses T params batches)) = k * length batches"
    using assms(1) by (induction batches) (simp_all add: sized_losses_def)
  show ?thesis
    using assms(2) by (simp add: length_weighted_average_def a b fdiv_fscale)
qed

text \<open>
  C2, as the code has it. The validation loss of an epoch and the test loss are the plain
  mean of the losses of the batches, and so is the train loss of an epoch that runs to its
  end: every batch counts once, whatever its length. When all batches have the same
  length the plain mean is the length-weighted average.
\<close>

theorem epoch_losses_are_batch_means:
  "snd (snd (validate T params (length batches) batches (0, 0, Num 0)))
     = fdiv (fsum (map (criterion T params) batches)) (length batches)
   \<and> snd (snd (test_batches T params (length batches) batches (0, 0, Num 0)))
     = fdiv (fsum (map (criterion T params) batches)) (length batches)
   \<and> (\<forall>s' l. train_batches T m (length batches) 0 batches s (Num 0) = Inr (s', l)
        \<longrightarrow> l = fdiv (fsum (batch_losses T m batches s)) (length batches))
   \<and> ((\<forall>batch \<in> set batches. length batch = k) \<and> 0 < k
        \<longrightarrow> fdiv (fsum (map (criterion T params) batches)) (length batches)
            = length_weighted_average (sized_losses T params batches))"
proof (intro conjI allI impI)
  show "snd (snd (validate T params (length batches) batches (0, 0, Num 0)))
     = fdiv (fsum (map (criterion T params) batches)) (length batches)"
    by (simp add: validate_sums fadd_zero)
  show "snd (snd (test_batches T params (length batches) batches (0, 0, Num 0)))
     = fdiv (fsum (map (criterion T params) batches)) (length batches)"
    by (simp add: test_batches_sums fadd_zero)
next
  fix s' l
  assume "train_batches T m (length batches) 0 batches s (Num 0) = Inr (s', l)"
  from train_batches_sums [OF this]
  show "l = fdiv (fsum (batch_losses T m batches s)) (length batches)"
    by (simp add: fadd_zero)
next
  assume "(\<forall>batch \<in> set batches. length batch = k) \<and> 0 < k"
  then show "fdiv (fsum (map (criterion T params) batches)) (length batches)
            = length_weighted_average (sized_losses T params batches)"
    using equal_batches_weighted [of batches k T params] by simp
qed

lemma toy_train_batches:
  "train_batches (toy_torch 12 12) toy_model 10 0 (chunks 1 (toy_dataset 10)) ([[0]], ()) (Num 0)
     = Inr (([[10]], ()), Num 9)"
  by code_simp

lemma toy_batch_losses:
  "batch_losses (toy_torch 12 12) toy_model (chunks 1 (toy_dataset 10)) ([[0]], ())
     = map Num [0, 2, 4, 6, 8, 10, 12, 14, 16, 18]"
  by code_simp

lemma toy_mean: "fdiv (fsum (map Num [0, 2, 4, 6, 8, 10, 12, 14, 16, 18])) 10 = Num 9"
  by code_simp

lemma toy_chunks: "chunks 1 (toy_dataset 10) = map (\<lambda>x. [x]) (toy_dataset 10)"
  by code_simp

theorem epoch_losses_are_batch_means_witness:
  "train_batches (toy_torch 12 12) toy_model 10 0 (chunks 1 (toy_dataset 10)) ([[0]], ()) (Num 0)
     = Inr (([[10]], ()), Num 9)
   \<and> Num 9 = fdiv (fsum (map Num [0, 2, 4, 6, 8, 10, 12, 14, 16, 18])) 10
   \<and> snd (snd (validate (toy_torch 12 12) [(''weight'', [10])] 10
                 (chunks 1 (toy_dataset 10)) (0, 0, Num 0)))
     = length_weighted_average
         (sized_losses (toy_torch 12 12) [(''weight'', [10])] (chunks 1 (toy_dataset 10)))"
proof -
  have len: "length (chunks 1 (toy_dataset 10)) = 10"
    by code_simp
  have one: "\<forall>batch \<in> set (chunks 1 (toy_dataset 10)). length batch = 1"
    unfolding toy_chunks by simp
  show ?thesis
    using epoch_losses_are_batch_means [where T = "toy_torch 12 12" and m = toy_model
        and batches = "chunks 1 (toy_dataset 10)" and s = "([[0]], ())"
        and params = "[(''weight'', [10])]" and k = 1]
      toy_train_batches toy_batch_losses toy_mean len one
    by simp
qed

text \<open>
  The claim that the losses are length-weighted fails when the last batch is shorter:
  three samples in batches of two give a batch of two with loss 1 and a batch of one with
  loss 4; the loop reports 5/2, the length-weighted average is 2.
\<close>

theorem unequal_batches_counterexample:
  "DataLoader [(1 :: nat, 0 :: nat), (1, 0), (4, 0)] 2 = Inr [[(1, 0), (1, 0)], [(4, 0)]]
   \<and> snd (snd (validate (toy_torch 3 3) [(''weight'', [0])] 2 [[(1, 0), (1, 0)], [(4, 0)]]
                 (0, 0, Num 0))) = Num (5 / 2)
   \<and> sized_losses (toy_torch 3 3) [(''weight'', [0])] [[(1, 0), (1, 0)], [(4, 0)]]
     = [(2, Num 1), (1, Num 4)]
   \<and> length_weighted_average [(2, Num 1), (1, Num 4)] = Num 2
   \<and> snd (snd (validate (toy_torch 3 3) [(''weight'', [0])] 2 [[(1, 0), (1, 0)], [(4, 0)]]
                 (0, 0, Num 0)))
     \<noteq> length_weighted_average
         (sized_losses (toy_torch 3 3) [(''weight'', [0])] [[(1, 0), (1, 0)], [(4, 0)]])"
  by code_simp


section \<open>Properties of the model variants\<close>

lemma train_mode_overrides:
  "\<not> train_mode (Complete False) md FeatureExtractorM
   \<and> \<not> train_mode (Complete False) md FeatureProjectionM
   \<and> \<not> train_mode (Complete False) md EncoderM
   \<and> \<not> train_mode FeezingEncoderOnly md EncoderM"
  by simp

lemma train_mode_overrides_frozen:
  "v = Complete ft \<or> v = FeezingEncoderOnly \<Longrightarrow> sm \<in> set (frozen v) \<Longrightarrow> \<not> train_mode v md sm"
  by (cases ft) auto

text \<open>
  C9, evaluated: \<open>Wav2VecCLSPaperFinetuning\<close> freezes its feature extractor and inherits
  \<open>train\<close> from the library, so after \<open>train()\<close> the frozen feature extractor is in training
  mode; the same holds for the two feature-extractor classes when fine-tuning is off.
\<close>

theorem paper_finetuning_trains_frozen_extractor:
  "wav2vec_option ''paper'' ft = Some CLSPaperFinetuning
   \<and> FeatureExtractorM \<in> set (frozen CLSPaperFinetuning)
   \<and> train_mode CLSPaperFinetuning (\<lambda>sm. False) FeatureExtractorM
   \<and> FeatureExtractorM \<in> set (frozen (FeatureExtractor False))
   \<and> train_mode (FeatureExtractor False) (\<lambda>sm. False) FeatureExtractorM
   \<and> FeatureExtractorM \<in> set (frozen (FeatureExtractorGAP False))
   \<and> train_mode (FeatureExtractorGAP False) (\<lambda>sm. False) FeatureExtractorM"
  by simp

text \<open>
  C10. \<open>forward\<close> of \<open>Wav2VecCLSTokenNotPretrained\<close>, the class of the option
  \<open>cls_token_not_pretrained\<close>, never returns a prediction: on every input it ends with the
  exception of the encoder, if the encoder raises one, and otherwise with
  \<open>AttributeError\<close>, because the constructor assigns no \<open>softmax_activation\<close>.
\<close>

theorem not_pretrained_forward_fails:
  "forward CLSTokenNotPretrained L x
     = (case encoder L x of Inl e \<Rightarrow> Inl e | Inr features \<Rightarrow> Inl AttributeError)
   \<and> (\<nexists>y. forward CLSTokenNotPretrained L x = Inr y)
   \<and> wav2vec_option ''cls_token_not_pretrained'' ft = Some CLSTokenNotPretrained"
  by (simp add: then_do_def getattr_def split: sum.splits)

lemma sibling_forward:
  "forward CLSToken L x = (case encoder L x of Inl e \<Rightarrow> Inl e | Inr h \<Rightarrow> Inr (head L h))"
  "forward (Complete ft) L x
     = (case encoder L x of Inl e \<Rightarrow> Inl e | Inr h \<Rightarrow> Inr (softmax L (head L h)))"
  by (simp_all add: then_do_def getattr_def split: sum.splits)


end
